theory Spec2Isabelle
  imports Complex_Main "HOL-Library.Sublist" "HOL-Library.AList"
begin

section \<open>Python values shared by the generators\<close>

text \<open>
  The module \<^verbatim>\<open>neural_maxwell/datasets/generators.py\<close> is embedded function by function.
  Python integers are \<open>int\<close>; a float64 is idealised as a \<open>real\<close> and a complex128 as a
  \<open>complex\<close> (no rounding); a two-dimensional numpy array is the list of its rows, all of
  one length (an array with no row has no column either). An exception is a value of
  \<open>error\<close>, carried in the left summand of the result.
\<close>

datatype error =
    ValueError string
  | TypeError string
  | IndexError string
  | AssertionError string
  | OverflowError string

text \<open>
  The constants imported from \<^verbatim>\<open>neural_maxwell.constants\<close>, a module that is not part of
  the sources at hand: they are parameters of every function that reads them.
\<close>

record constants =
  EPSILON0 :: real
  MU0 :: real
  eps_si :: real

subsection \<open>numpy: shapes, slices, random integers\<close>

definition nrows :: "'a list list \<Rightarrow> nat" where
  "nrows a = length a"

definition ncols :: "'a list list \<Rightarrow> nat" where
  "ncols a = (case a of [] \<Rightarrow> 0 | r # _ \<Rightarrow> length r)"

text \<open>
  \<^verbatim>\<open>a[lo:hi]\<close> on an axis of length \<open>n\<close>: a negative bound counts from the end, a bound
  past either end is clamped, a missing bound (\<open>None\<close>) is the end of the axis. The
  result is the half-open index range of the slice; it is empty when the second
  component does not exceed the first.
\<close>

definition clamp_index :: "nat \<Rightarrow> int \<Rightarrow> int" where
  "clamp_index n k = (if k < 0 then max 0 (int n + k) else min k (int n))"

definition slice_bounds :: "nat \<Rightarrow> int option \<Rightarrow> int option \<Rightarrow> nat \<times> nat" where
  "slice_bounds n lo hi =
     (let l = (case lo of None \<Rightarrow> 0 | Some k \<Rightarrow> clamp_index n k);
          h = (case hi of None \<Rightarrow> int n | Some k \<Rightarrow> clamp_index n k)
      in (nat l, nat (max l h)))"

definition in_slice :: "nat \<times> nat \<Rightarrow> nat \<Rightarrow> bool" where
  "in_slice b i = (fst b \<le> i \<and> i < snd b)"

text \<open>\<^verbatim>\<open>a[r0:r1, c0:c1]\<close> read from a two-dimensional array.\<close>

definition slice1 :: "'a list \<Rightarrow> int option \<Rightarrow> int option \<Rightarrow> 'a list" where
  "slice1 xs lo hi =
     (let b = slice_bounds (length xs) lo hi in take (snd b - fst b) (drop (fst b) xs))"

definition slice2 ::
  "'a list list \<Rightarrow> int option \<times> int option \<Rightarrow> int option \<times> int option \<Rightarrow> 'a list list" where
  "slice2 a rs cs = map (\<lambda>row. slice1 row (fst cs) (snd cs)) (slice1 a (fst rs) (snd rs))"

text \<open>
  numpy's default integer is the signed 64-bit one: its arithmetic wraps around, and
  \<open>int64 k\<close> is the value that the integer \<open>k\<close> wraps to.
\<close>

definition int64 :: "int \<Rightarrow> int" where
  "int64 k = (k + 2 ^ 63) mod 2 ^ 64 - 2 ^ 63"

text \<open>
  \<^verbatim>\<open>np.random.randint(low, high)\<close> draws from the half-open range \<open>low \<le> k < high\<close> with
  equal probability. It raises ValueError when a bound is outside the 64-bit range and
  when the range is empty (worded \<open>high <= 0\<close> for \<open>low = 0\<close>). The global generator
  is not modelled: a draw is the list of its equally likely outcomes, and a computation
  that draws is the list of its equally likely results.
\<close>

definition randint :: "int \<Rightarrow> int \<Rightarrow> error + int list" where
  "randint low high =
     (if low < - (2 ^ 63) then Inl (ValueError ''low is out of bounds for int64'')
      else if 2 ^ 63 < high then Inl (ValueError ''high is out of bounds for int64'')
      else if low < high then Inr [low..high - 1]
      else Inl (ValueError (if low = 0 then ''high <= 0'' else ''low >= high'')))"

section \<open>SimulationData\<close>

record SimulationData =
  sd_epsilons :: "real list list"
  sd_omega :: real
  sd_mode :: string
  sd_grid_size :: int
  sd_npml :: int
  sd_npml_buffer :: int
  sd_total_grid_size :: int
  sd_dl :: real
  sd_L0 :: real
  sd_source_pos :: "int \<times> int"
  sd_fields :: "(string \<times> complex list list) list option"
  sd_fields_vac :: "(string \<times> complex list list) list option"
  sd_proximities :: "real list list option"

text \<open>
  \<^verbatim>\<open>SimulationData.__init__\<close>. The default arguments of the source are passed
  explicitly. With no source position two integers are drawn, first \<open>pos_x\<close>, then
  \<open>pos_y\<close>; the result lists the objects the draws can give.
\<close>

definition SimulationData_init ::
  "real list list \<Rightarrow> real \<Rightarrow> (int \<times> int) option \<Rightarrow> string \<Rightarrow> int \<Rightarrow> int \<Rightarrow> int \<Rightarrow> real \<Rightarrow> real
     \<Rightarrow> error + SimulationData list" where
  "SimulationData_init epsilons omega source_pos mode grid_size npml npml_buffer dl L0 =
     (let self = (\<lambda>pos.
            \<lparr> sd_epsilons = epsilons, sd_omega = omega, sd_mode = mode,
              sd_grid_size = grid_size, sd_npml = npml, sd_npml_buffer = npml_buffer,
              sd_total_grid_size = grid_size + 2 * npml + 2 * npml_buffer,
              sd_dl = dl, sd_L0 = L0, sd_source_pos = pos,
              sd_fields = None, sd_fields_vac = None, sd_proximities = None \<rparr>)
      in case source_pos of
           None \<Rightarrow>
             (case randint 0 (npml_buffer - 1) of
                Inl e \<Rightarrow> Inl e
              | Inr xs \<Rightarrow>
                  (case randint 0 grid_size of
                     Inl e \<Rightarrow> Inl e
                   | Inr ys \<Rightarrow>
                       Inr (concat (map (\<lambda>pos_x. map (\<lambda>pos_y. self (pos_x, pos_y)) ys) xs))))
         | Some pos \<Rightarrow> Inr [self pos])"

text \<open>
  The first two lines of \<^verbatim>\<open>SimulationData.solve\<close>, repeated at the head of
  \<^verbatim>\<open>get_proximity_matrix\<close>: the index range \<open>(start, end)\<close> of the device inside the
  padded grid. Both methods below take the two numbers from here.
\<close>

definition device_window :: "SimulationData \<Rightarrow> int \<times> int" where
  "device_window self =
     (let start = sd_npml self + sd_npml_buffer self;
          stop = start + sd_grid_size self
      in (start, stop))"

text \<open>
  \<^verbatim>\<open>self.source_pos + start\<close>, the line that both \<^verbatim>\<open>solve\<close> and
  \<^verbatim>\<open>get_proximity_matrix\<close> unpack into the source's cell of the padded grid:
  \<open>source_pos\<close> is a numpy array of 64-bit integers, so the sum wraps.
\<close>

definition source_cell :: "SimulationData \<Rightarrow> int \<times> int" where
  "source_cell self =
     (let start = fst (device_window self)
      in (int64 (fst (sd_source_pos self) + start), int64 (snd (sd_source_pos self) + start)))"

text \<open>
  \<^verbatim>\<open>range(n)\<close>, and the nested comprehension
  \<^verbatim>\<open>[[c + (x - x0) ** 2 + (y - y0) ** 2 for x in range(n)] for y in range(n)]\<close> that each
  branch of \<^verbatim>\<open>get_proximity_matrix\<close> builds (\<open>c\<close> is 0 or 1): rows are indexed by \<open>y\<close>.
  \<open>x0\<close> and \<open>y0\<close> are 64-bit integers, so each difference, square and sum is one too
  and wraps: the value is \<open>(c + (x - x0) ** 2) + (y - y0) ** 2\<close>, every operation taken in
  64 bits.
\<close>

definition py_range :: "int \<Rightarrow> int list" where
  "py_range n = map int [0..<nat n]"

definition cell_distance :: "int \<Rightarrow> int \<Rightarrow> int \<Rightarrow> int \<Rightarrow> int \<Rightarrow> int" where
  "cell_distance c x0 y0 x y =
     int64 (int64 (c + int64 (int64 (x - x0) ^ 2)) + int64 (int64 (y - y0) ^ 2))"

definition distance_rows :: "int \<Rightarrow> int \<Rightarrow> int \<Rightarrow> int \<Rightarrow> int list list" where
  "distance_rows c n x0 y0 =
     map (\<lambda>y. map (\<lambda>x. cell_distance c x0 y0 x y) (py_range n)) (py_range n)"

text \<open>
  \<^verbatim>\<open>np.array(rows)[start:end, start:end]\<close> (likewise for \<^verbatim>\<open>np.sqrt(rows)\<close>): numpy makes a
  one-dimensional empty array of a list with no row, and indexing that with two slices
  raises IndexError.
\<close>

definition window_of_rows :: "real list list \<Rightarrow> int \<Rightarrow> int \<Rightarrow> error + real list list" where
  "window_of_rows rows start stop =
     (if rows = [] then Inl (IndexError ''too many indices for array'')
      else Inr (slice2 rows (Some start, Some stop) (Some start, Some stop)))"

text \<open>
  \<^verbatim>\<open>SimulationData.get_proximity_matrix\<close>. The four \<^verbatim>\<open>if\<close> statements are tried in the
  source's order; when none applies the function ends without a \<^verbatim>\<open>return\<close>, so the call
  returns Python's \<open>None\<close>: the result \<open>Inr None\<close>.
\<close>

definition get_proximity_matrix :: "SimulationData \<Rightarrow> string \<Rightarrow> error + real list list option" where
  "get_proximity_matrix self mode =
     (let start = fst (device_window self);
          stop = snd (device_window self);
          x0 = fst (source_cell self);
          y0 = snd (source_cell self);
          n = sd_total_grid_size self
      in if mode = ''linear'' then
           (case window_of_rows (map (map (\<lambda>d. sqrt (real_of_int d))) (distance_rows 0 n x0 y0))
                   start stop of
              Inl e \<Rightarrow> Inl e
            | Inr w \<Rightarrow> Inr (Some w))
         else if mode = ''squared'' then
           (case window_of_rows (map (map real_of_int) (distance_rows 0 n x0 y0)) start stop of
              Inl e \<Rightarrow> Inl e
            | Inr w \<Rightarrow> Inr (Some w))
         else if mode = ''inv_linear'' then
           (case window_of_rows (map (map (\<lambda>d. sqrt (real_of_int d))) (distance_rows 1 n x0 y0))
                   start stop of
              Inl e \<Rightarrow> Inl e
            | Inr w \<Rightarrow> Inr (Some (map (map (\<lambda>v. 1 / v)) w)))
         else if mode = ''inv_squared'' then
           (case window_of_rows (map (map real_of_int) (distance_rows 1 n x0 y0)) start stop of
              Inl e \<Rightarrow> Inl e
            | Inr w \<Rightarrow> Inr (Some (map (map (\<lambda>v. 1 / v)) w)))
         else Inr None)"

section \<open>Cavity2D\<close>

record Cavity2D =
  cav_mode :: string
  cav_device_length :: int
  cav_npml :: int
  cav_cavity_buffer :: int
  cav_buffer_permittivity :: real
  cav_dl :: real
  cav_L0 :: real

definition Cavity2D_init ::
  "string \<Rightarrow> int \<Rightarrow> int \<Rightarrow> int \<Rightarrow> real \<Rightarrow> real \<Rightarrow> real \<Rightarrow> Cavity2D" where
  "Cavity2D_init mode device_length npml cavity_buffer buffer_permittivity dl L0 =
     \<lparr> cav_mode = mode, cav_device_length = device_length, cav_npml = npml,
       cav_cavity_buffer = cavity_buffer, cav_buffer_permittivity = buffer_permittivity,
       cav_dl = dl, cav_L0 = L0 \<rparr>"

text \<open>
  The three lines that open \<^verbatim>\<open>Cavity2D.solve\<close> (and, in another order,
  \<^verbatim>\<open>Cavity2D.get_operators\<close>): the side \<open>total_length\<close> of the padded grid and the
  device's index range \<open>(start, end)\<close>. Both methods below take the three numbers from
  here.
\<close>

definition cavity_geometry :: "Cavity2D \<Rightarrow> int \<times> int \<times> int" where
  "cavity_geometry self =
     (let total_length = cav_device_length self + 2 * cav_cavity_buffer self + 2 * cav_npml self;
          start = cav_npml self + cav_cavity_buffer self;
          stop = start + cav_device_length self
      in (total_length, start, stop))"

section \<open>Permittivity generators\<close>

text \<open>
  \<^verbatim>\<open>np.ones((n, m))\<close> raises ValueError on a negative dimension.
  \<^verbatim>\<open>np.random.randint(low, high, 2)\<close> is two independent draws from one range.
\<close>

definition np_ones :: "int \<Rightarrow> int \<Rightarrow> error + real list list" where
  "np_ones n m =
     (if n < 0 \<or> m < 0 then Inl (ValueError ''negative dimensions are not allowed'')
      else Inr (replicate (nat n) (replicate (nat m) 1)))"

definition randint2 :: "int \<Rightarrow> int \<Rightarrow> error + (int \<times> int) list" where
  "randint2 low high =
     (case randint low high of Inl e \<Rightarrow> Inl e | Inr ks \<Rightarrow> Inr (List.product ks ks))"

text \<open>
  \<^verbatim>\<open>a[selected] = v\<close> for a boolean array \<open>selected\<close> of the shape of \<open>a\<close>: the cells
  where it is true receive \<open>v\<close>. (Both arrays are \<open>s\<close> by \<open>s\<close> wherever it is used.)
\<close>

definition mask_assign :: "real list list \<Rightarrow> bool list list \<Rightarrow> real \<Rightarrow> real list list" where
  "mask_assign a selected v =
     map (\<lambda>(row, srow). map (\<lambda>(x, b). if b then v else x) (zip row srow)) (zip a selected)"

text \<open>
  The last four lines of \<^verbatim>\<open>perm_ellipse\<close>, once the centre and the radii are drawn.
  \<^verbatim>\<open>np.meshgrid(np.arange(s), np.arange(s))\<close> gives \<open>x[i][j] = j\<close> and \<open>y[i][j] = i\<close>;
  \<open>ellipse\<close> is already a boolean array, and \<^verbatim>\<open>ellipse < 1.0\<close> compares its truth values,
  as the numbers 1 and 0, with 1.0.
\<close>

definition ellipse_fill ::
  "constants \<Rightarrow> int \<Rightarrow> real list list \<Rightarrow> int \<Rightarrow> int \<Rightarrow> int \<Rightarrow> int \<Rightarrow> real list list" where
  "ellipse_fill C s p_matrix x0 y0 rx ry =
     (let x = map (\<lambda>i. map (\<lambda>j. j) (py_range s)) (py_range s);
          y = map (\<lambda>i. map (\<lambda>j. i) (py_range s)) (py_range s);
          ellipse = map (\<lambda>(xrow, yrow). map (\<lambda>(xv, yv).
                       (real_of_int (xv - x0) / real_of_int rx) ^ 2
                         + (real_of_int (yv - y0) / real_of_int ry) ^ 2 \<le> 1) (zip xrow yrow))
                     (zip x y);
          selected = map (map (\<lambda>b. (if b then 1 else (0::real)) < 1)) ellipse
      in mask_assign p_matrix selected (eps_si C))"

text \<open>
  \<^verbatim>\<open>perm_ellipse\<close>: the unit block, the two pairs of draws, then the fill; the result lists
  the blocks the draws can give.
\<close>

definition perm_ellipse :: "constants \<Rightarrow> int \<Rightarrow> error + real list list list" where
  "perm_ellipse C s =
     (case np_ones s s of
        Inl e \<Rightarrow> Inl e
      | Inr p_matrix \<Rightarrow>
          (case randint2 16 (s - 16) of
             Inl e \<Rightarrow> Inl e
           | Inr centres \<Rightarrow>
               (case randint2 5 16 of
                  Inl e \<Rightarrow> Inl e
                | Inr radii \<Rightarrow>
                    Inr (concat (map (\<lambda>(x0, y0). map (\<lambda>(rx, ry).
                           ellipse_fill C s p_matrix x0 y0 rx ry) radii) centres)))))"

section \<open>Operator assembly\<close>

text \<open>
  The \<^verbatim>\<open>angler\<close> package is an external library. What the generators use of it is a
  parameter of the model: the constructor \<^verbatim>\<open>Simulation(omega, eps_r, dl, NPML, pol, L0)\<close>,
  which may raise; the assignment \<^verbatim>\<open>sim.src[i, j] = v\<close>; \<^verbatim>\<open>sim.solve_fields()\<close>; and
  \<^verbatim>\<open>unpack_derivs(sim.derivs)\<close>, the tuple \<open>(Dyb, Dxb, Dxf, Dyf)\<close> of derivative matrices.
  The type \<open>'sim\<close> is the library's simulation object.
\<close>

record 'sim angler =
  Simulation :: "real \<Rightarrow> real list list \<Rightarrow> real \<Rightarrow> int list \<Rightarrow> string \<Rightarrow> real \<Rightarrow> error + 'sim"
  set_src :: "'sim \<Rightarrow> int \<Rightarrow> int \<Rightarrow> complex \<Rightarrow> error + 'sim"
  solve_fields :: "'sim \<Rightarrow> error + (complex list list \<times> complex list list \<times> complex list list)"
  unpack_derivs ::
    "'sim \<Rightarrow> complex list list \<times> complex list list \<times> complex list list \<times> complex list list"

text \<open>
  scipy's sparse matrices, written densely: the product \<^verbatim>\<open>A @ B\<close> and the sum \<^verbatim>\<open>A + B\<close>
  raise ValueError on shapes that do not fit; \<^verbatim>\<open>sp.spdiags(v, 0, M, M)\<close> is the \<open>M\<close> by \<open>M\<close>
  matrix with \<open>v\<close> on its main diagonal; \<^verbatim>\<open>c * A\<close> scales every entry; \<^verbatim>\<open>.todense()\<close>
  changes nothing in this representation.
\<close>

definition sp_matmul :: "complex list list \<Rightarrow> complex list list \<Rightarrow> error + complex list list" where
  "sp_matmul a b =
     (if ncols a \<noteq> nrows b then Inl (ValueError ''dimension mismatch'')
      else Inr (map (\<lambda>row. map (\<lambda>j. sum_list (map (\<lambda>k. row ! k * b ! k ! j) [0..<nrows b]))
                      [0..<ncols b]) a))"

definition sp_add :: "complex list list \<Rightarrow> complex list list \<Rightarrow> error + complex list list" where
  "sp_add a b =
     (if nrows a \<noteq> nrows b \<or> ncols a \<noteq> ncols b then Inl (ValueError ''inconsistent shapes'')
      else Inr (map (\<lambda>(ra, rb). map (\<lambda>(x, y). x + y) (zip ra rb)) (zip a b)))"

definition spdiags0 :: "real list \<Rightarrow> nat \<Rightarrow> real list list" where
  "spdiags0 v M =
     map (\<lambda>i. map (\<lambda>j. if i = j \<and> i < length v then v ! i else 0) [0..<M]) [0..<M]"

definition sp_scale :: "real \<Rightarrow> real list list \<Rightarrow> real list list" where
  "sp_scale c a = map (map (\<lambda>x. c * x)) a"

text \<open>A matrix of shape \<open>(M, M)\<close>: \<open>M\<close> rows of \<open>M\<close> entries each.\<close>

definition square :: "nat \<Rightarrow> 'a list list \<Rightarrow> bool" where
  "square M a = (length a = M \<and> list_all (\<lambda>row. length row = M) a)"

text \<open>
  The lines that \<^verbatim>\<open>get_A_ops_2d\<close> and \<^verbatim>\<open>Cavity2D.get_operators\<close> have in common, from the
  construction of the simulation to the \<^verbatim>\<open>return\<close>: \<open>perms\<close> is the permittivity array
  handed to the simulation and flattened row by row (\<^verbatim>\<open>reshape((-1,))\<close>) for the
  material term; \<open>pol\<close> is the polarization passed on.
\<close>

definition assemble_operators ::
  "'sim angler \<Rightarrow> constants \<Rightarrow> real list list \<Rightarrow> int \<Rightarrow> string \<Rightarrow> real \<Rightarrow> real \<Rightarrow> real
     \<Rightarrow> error + (complex list list \<times> real list list)" where
  "assemble_operators lib C perms npml pol omega dl L0 =
     (case Simulation lib omega perms dl [npml, npml] pol L0 of
        Inl e \<Rightarrow> Inl e
      | Inr sim \<Rightarrow>
          (case unpack_derivs lib sim of (Dyb, Dxb, Dxf, Dyf) \<Rightarrow>
             (let M = nrows perms * ncols perms;
                  vector_eps_z = map (\<lambda>e. EPSILON0 C * L0 * e) (concat perms);
                  T_eps_z = spdiags0 vector_eps_z M
              in case sp_matmul Dxf Dxb of
                   Inl e \<Rightarrow> Inl e
                 | Inr xx \<Rightarrow>
                     (case sp_matmul Dyf Dyb of
                        Inl e \<Rightarrow> Inl e
                      | Inr yy \<Rightarrow>
                          (case sp_add xx yy of
                             Inl e \<Rightarrow> Inl e
                           | Inr curl_curl \<Rightarrow>
                               (let other = sp_scale (omega ^ 2 * MU0 C * L0) T_eps_z
                                in Inr (curl_curl, other)))))))"


text \<open>
  \<^verbatim>\<open>a[r0:r1, c0:c1] = v\<close> for a scalar \<open>v\<close>, and for an array \<open>e\<close>, which numpy broadcasts:
  each dimension of \<open>e\<close> must be that of the slice or 1, otherwise ValueError.
  (\<open>a\<close> is rectangular wherever these are used.)
\<close>

definition assign_scalar ::
  "real list list \<Rightarrow> int option \<times> int option \<Rightarrow> int option \<times> int option \<Rightarrow> real \<Rightarrow> real list list" where
  "assign_scalar a rs cs v =
     (let rb = slice_bounds (nrows a) (fst rs) (snd rs);
          cb = slice_bounds (ncols a) (fst cs) (snd cs)
      in map (\<lambda>i. map (\<lambda>j. if in_slice rb i \<and> in_slice cb j then v else a ! i ! j)
                [0..<ncols a]) [0..<nrows a])"

definition assign_array ::
  "real list list \<Rightarrow> int option \<times> int option \<Rightarrow> int option \<times> int option \<Rightarrow> real list list
     \<Rightarrow> error + real list list" where
  "assign_array a rs cs e =
     (let rb = slice_bounds (nrows a) (fst rs) (snd rs);
          cb = slice_bounds (ncols a) (fst cs) (snd cs);
          h = snd rb - fst rb;
          w = snd cb - fst cb
      in if (nrows e = h \<or> nrows e = 1) \<and> (ncols e = w \<or> ncols e = 1) then
           Inr (map (\<lambda>i. map (\<lambda>j.
                  if in_slice rb i \<and> in_slice cb j
                  then e ! (if nrows e = 1 then 0 else i - fst rb)
                         ! (if ncols e = 1 then 0 else j - fst cb)
                  else a ! i ! j) [0..<ncols a]) [0..<nrows a])
         else Inl (ValueError ''could not broadcast input array''))"

text \<open>
  \<^verbatim>\<open>Cavity2D.get_operators\<close>, in two parts. \<open>cavity_perms\<close> is its permittivity array:
  the padded array of ones and the four assignments of the buffer permittivity (columns
  before \<open>start\<close>, rows before \<open>start\<close>, columns from \<open>end\<close>, rows from \<open>end\<close>). The
  method then assembles the operators from that array with the object's own
  polarization. It takes no permittivity from its caller.
\<close>

definition cavity_perms :: "Cavity2D \<Rightarrow> error + real list list" where
  "cavity_perms self =
     (let total_length = fst (cavity_geometry self)
      in case np_ones total_length total_length of
           Inl e \<Rightarrow> Inl e
         | Inr perms0 \<Rightarrow>
             (let start = fst (snd (cavity_geometry self));
                  stop = snd (snd (cavity_geometry self));
                  perms1 = assign_scalar perms0 (None, None) (None, Some start)
                             (cav_buffer_permittivity self);
                  perms2 = assign_scalar perms1 (None, Some start) (None, None)
                             (cav_buffer_permittivity self);
                  perms3 = assign_scalar perms2 (None, None) (Some stop, None)
                             (cav_buffer_permittivity self);
                  perms = assign_scalar perms3 (Some stop, None) (None, None)
                             (cav_buffer_permittivity self)
              in Inr perms))"

definition Cavity2D_get_operators ::
  "'sim angler \<Rightarrow> constants \<Rightarrow> Cavity2D \<Rightarrow> real
     \<Rightarrow> error + (complex list list \<times> real list list)" where
  "Cavity2D_get_operators lib C self omega =
     (case cavity_perms self of
        Inl e \<Rightarrow> Inl e
      | Inr perms \<Rightarrow>
          assemble_operators lib C perms (cav_npml self) (cav_mode self) omega
            (cav_dl self) (cav_L0 self))"

text \<open>The \<open>n\<close> by \<open>n\<close> array whose entry in row \<open>i\<close>, column \<open>j\<close> is \<open>f i j\<close>.\<close>

definition grid :: "nat \<Rightarrow> (nat \<Rightarrow> nat \<Rightarrow> 'a) \<Rightarrow> 'a list list" where
  "grid n f = map (\<lambda>i. map (\<lambda>j. f i j) [0..<n]) [0..<n]"

text \<open>
  \<^verbatim>\<open>Cavity2D.solve\<close>, in two parts. \<open>Cavity2D_prepare\<close> is everything up to and including
  \<^verbatim>\<open>sim.src[src_y, src_x] = 1j\<close>: the grid with the device block embedded, the default
  source position, the simulation object, the source. \<open>Cavity2D_solve\<close> then dispatches
  on the polarization; \<open>clip0\<close> and \<open>clip1\<close> are both \<open>None\<close> in the source, so the
  slices \<^verbatim>\<open>[clip0:clip1, clip0:clip1]\<close> keep the whole array. The method assigns to no
  attribute of \<open>self\<close>; the object is returned beside the result to state so.
\<close>

definition Cavity2D_prepare ::
  "'sim angler \<Rightarrow> Cavity2D \<Rightarrow> real list list \<Rightarrow> real \<Rightarrow> int option \<Rightarrow> int option
     \<Rightarrow> error + (real list list \<times> int \<times> int \<times> 'sim)" where
  "Cavity2D_prepare lib self epsilons omega src_x src_y =
     (let total_length = fst (cavity_geometry self);
          start = fst (snd (cavity_geometry self));
          stop = snd (snd (cavity_geometry self))
      in case np_ones total_length total_length of
           Inl e \<Rightarrow> Inl e
         | Inr perms0 \<Rightarrow>
             (let perms1 = assign_scalar perms0 (None, None) (None, Some start)
                             (cav_buffer_permittivity self);
                  perms2 = assign_scalar perms1 (None, Some start) (None, None)
                             (cav_buffer_permittivity self)
              in case assign_array perms2 (Some start, Some stop) (Some start, Some stop) epsilons of
                   Inl e \<Rightarrow> Inl e
                 | Inr perms3 \<Rightarrow>
                     (let perms4 = assign_scalar perms3 (None, None) (Some stop, None)
                                     (cav_buffer_permittivity self);
                          perms = assign_scalar perms4 (Some stop, None) (None, None)
                                     (cav_buffer_permittivity self);
                          sx = (case src_x of None \<Rightarrow> total_length div 2 | Some x \<Rightarrow> x);
                          sy = (case src_y of None \<Rightarrow> total_length div 2 | Some y \<Rightarrow> y)
                      in case Simulation lib omega perms (cav_dl self)
                                [cav_npml self, cav_npml self] (cav_mode self) (cav_L0 self) of
                           Inl e \<Rightarrow> Inl e
                         | Inr sim0 \<Rightarrow>
                             (case set_src lib sim0 sy sx \<i> of
                                Inl e \<Rightarrow> Inl e
                              | Inr sim \<Rightarrow> Inr (perms, sx, sy, sim)))))"

definition Cavity2D_solve ::
  "'sim angler \<Rightarrow> Cavity2D \<Rightarrow> real list list \<Rightarrow> real \<Rightarrow> int option \<Rightarrow> int option
     \<Rightarrow> Cavity2D \<times> (error + (real list list \<times> int \<times> int
            \<times> complex list list \<times> complex list list \<times> complex list list))" where
  "Cavity2D_solve lib self epsilons omega src_x src_y =
     (self,
      case Cavity2D_prepare lib self epsilons omega src_x src_y of
        Inl e \<Rightarrow> Inl e
      | Inr (perms, sx, sy, sim) \<Rightarrow>
          (let clip0 = None; clip1 = None
           in if cav_mode self = ''Ez'' then
                (case solve_fields lib sim of
                   Inl e \<Rightarrow> Inl e
                 | Inr (Hx, Hy, Ez) \<Rightarrow>
                     Inr (slice2 perms (clip0, clip1) (clip0, clip1), sx, sy,
                          slice2 Hx (clip0, clip1) (clip0, clip1),
                          slice2 Hy (clip0, clip1) (clip0, clip1),
                          slice2 Ez (clip0, clip1) (clip0, clip1)))
              else if cav_mode self = ''Hz'' then
                (case solve_fields lib sim of
                   Inl e \<Rightarrow> Inl e
                 | Inr (Ex', Ey', Hz') \<Rightarrow>
                     Inr (slice2 perms (clip0, clip1) (clip0, clip1), sx, sy,
                          slice2 Ex' (clip0, clip1) (clip0, clip1),
                          slice2 Ey' (clip0, clip1) (clip0, clip1),
                          slice2 Hz' (clip0, clip1) (clip0, clip1)))
              else Inl (ValueError ''Polarization must be Ez or Hz!'')))"

section \<open>The persisted dataset\<close>

text \<open>
  An HDF5 file as \<^verbatim>\<open>h5py\<close> presents it: a root group whose members are named groups
  and datasets (the order of the association list carries no meaning: members are
  found by name); a dataset has a shape, an element type and its elements. A batch name is one member name of the root group (no \<open>/\<close> in it). A
  handle to a dataset is its path, the group's name and its own.

  \<^verbatim>\<open>require_group(name)\<close> opens the group of that name, creating it when the name is
  free, and raises TypeError when the name is taken by a dataset.
  \<^verbatim>\<open>require_dataset(name, shape, dtype)\<close> opens the dataset of that name, creating it
  (zero-filled; OverflowError on a negative dimension) when the name is free; an
  existing dataset must have the same shape and a type the requested one can be cast to
  safely (\<^verbatim>\<open>np.can_cast\<close>), otherwise TypeError. The file is returned beside the result, since a raising call leaves what
  earlier calls created.
\<close>

datatype dtype = Float64 | Complex128

datatype h5obj =
    Dataset "int list" dtype "complex list"
  | Group "(string \<times> h5obj) list"

type_synonym h5file = "(string \<times> h5obj) list"

type_synonym handle = "string \<times> string"

definition np_can_cast :: "dtype \<Rightarrow> dtype \<Rightarrow> bool" where
  "np_can_cast a b = (a = b \<or> (a = Float64 \<and> b = Complex128))"

definition require_group :: "h5file \<Rightarrow> string \<Rightarrow> h5file \<times> (error + string)" where
  "require_group f name =
     (case map_of f name of
        None \<Rightarrow> (AList.update name (Group []) f, Inr name)
      | Some (Group ms) \<Rightarrow> (f, Inr name)
      | Some (Dataset shape dt xs) \<Rightarrow>
          (f, Inl (TypeError ''Incompatible object (Dataset) already exists'')))"

definition require_dataset ::
  "h5file \<Rightarrow> string \<Rightarrow> string \<Rightarrow> int list \<Rightarrow> dtype \<Rightarrow> h5file \<times> (error + handle)" where
  "require_dataset f grp name shape dt =
     (case map_of f grp of
        Some (Group ms) \<Rightarrow>
          (case map_of ms name of
             None \<Rightarrow>
               (if list_ex (\<lambda>d. d < 0) shape
                then (f, Inl (OverflowError ''negative value for hsize_t''))
                else (AList.update grp
                        (Group (AList.update name
                           (Dataset shape dt (replicate (nat (prod_list shape)) 0)) ms)) f,
                      Inr (grp, name)))
           | Some (Group sub) \<Rightarrow>
               (f, Inl (TypeError ''Incompatible object (Group) already exists''))
           | Some (Dataset shape' dt' xs) \<Rightarrow>
               (if shape \<noteq> shape' then (f, Inl (TypeError ''Shapes do not match''))
                else if \<not> np_can_cast dt dt'
                then (f, Inl (TypeError ''Datatypes cannot be safely cast''))
                else (f, Inr (grp, name))))
      | _ \<Rightarrow> (f, Inl (TypeError ''not a group'')))"

text \<open>
  One more \<^verbatim>\<open>grp.require_dataset(name, (N, s, s), dtype=...)\<close> in the straight-line
  sequence of \<^verbatim>\<open>create_dataset\<close>: nothing happens once an earlier call has raised;
  otherwise the handle is added, under the column's name, to those collected so far.
\<close>

definition then_require ::
  "h5file \<times> (error + (string \<times> handle) list) \<Rightarrow> string \<Rightarrow> string \<Rightarrow> int list \<Rightarrow> dtype
     \<Rightarrow> h5file \<times> (error + (string \<times> handle) list)" where
  "then_require st grp name shape dt =
     (case snd st of
        Inl e \<Rightarrow> st
      | Inr hs \<Rightarrow>
          (case require_dataset (fst st) grp name shape dt of
             (f', Inl e) \<Rightarrow> (f', Inl e)
           | (f', Inr h) \<Rightarrow> (f', Inr (hs @ [(name, h)]))))"

text \<open>
  \<^verbatim>\<open>create_dataset(f, N, name, s)\<close>: the group, then the eight columns in the source's
  order; the dictionary returned maps each column name to its handle.
\<close>

definition create_dataset ::
  "h5file \<Rightarrow> int \<Rightarrow> string \<Rightarrow> int \<Rightarrow> h5file \<times> (error + (string \<times> handle) list)" where
  "create_dataset f N name s =
     (case require_group f name of
        (f0, Inl e) \<Rightarrow> (f0, Inl e)
      | (f0, Inr grp) \<Rightarrow>
          then_require (then_require (then_require (then_require (then_require
            (then_require (then_require (then_require (f0, Inr [])
              grp ''epsilons'' [N, s, s] Float64)
              grp ''proximities'' [N, s, s] Float64)
              grp ''Hx'' [N, s, s] Complex128)
              grp ''Hy'' [N, s, s] Complex128)
              grp ''Ez'' [N, s, s] Complex128)
              grp ''Hx_vac'' [N, s, s] Complex128)
              grp ''Hy_vac'' [N, s, s] Complex128)
              grp ''Ez_vac'' [N, s, s] Complex128)"

text \<open>
  The eight columns of a batch, with the element types \<^verbatim>\<open>create_dataset\<close> asks for, and
  the dictionary it returns for the batch \<open>name\<close>: each column's name with the handle
  of the dataset of that name in the batch's group.
\<close>

definition batch_columns :: "(string \<times> dtype) list" where
  "batch_columns =
     [(''epsilons'', Float64), (''proximities'', Float64),
      (''Hx'', Complex128), (''Hy'', Complex128), (''Ez'', Complex128),
      (''Hx_vac'', Complex128), (''Hy_vac'', Complex128), (''Ez_vac'', Complex128)]"

definition batch_handles :: "string \<Rightarrow> (string \<times> handle) list" where
  "batch_handles name = map (\<lambda>(col, dt). (col, (name, col))) batch_columns"

text \<open>
  The group \<open>grp\<close> of the file has the object \<open>obj\<close> as its member \<open>name\<close>; and: it
  holds a dataset \<open>name\<close>, with whatever elements, that a request for \<open>(shape, dt)\<close>
  accepts.
\<close>

definition has_member :: "h5file \<Rightarrow> string \<Rightarrow> string \<Rightarrow> h5obj \<Rightarrow> bool" where
  "has_member f grp name obj =
     (case map_of f grp of
        Some (Group ms) \<Rightarrow> map_of ms name = Some obj
      | _ \<Rightarrow> False)"

definition has_dataset :: "h5file \<Rightarrow> string \<Rightarrow> string \<Rightarrow> int list \<Rightarrow> dtype \<Rightarrow> bool" where
  "has_dataset f grp name shape dt =
     (case map_of f grp of
        Some (Group ms) \<Rightarrow>
          (case map_of ms name of
             Some (Dataset shape' dt' xs) \<Rightarrow> shape = shape' \<and> np_can_cast dt dt'
           | _ \<Rightarrow> False)
      | _ \<Rightarrow> False)"

section \<open>SimulationData.solve\<close>

text \<open>
  \<^verbatim>\<open>SimulationData.solve\<close>: the vacuum grid and the grid with the device embedded at the
  device window, the source at \<open>source_pos + start\<close> in both simulations, the vacuum
  solve, the device solve, and the six field arrays clipped to the device window and
  stored in the object.
\<close>

definition SimulationData_solve :: "'sim angler \<Rightarrow> SimulationData \<Rightarrow> error + SimulationData" where
  "SimulationData_solve lib self =
     (let start = fst (device_window self);
          stop = snd (device_window self);
          w = (Some start, Some stop)
      in case np_ones (sd_total_grid_size self) (sd_total_grid_size self) of
           Inl e \<Rightarrow> Inl e
         | Inr vac_perm \<Rightarrow>
             (case assign_array vac_perm w w (sd_epsilons self) of
                Inl e \<Rightarrow> Inl e
              | Inr perms \<Rightarrow>
                  (let pos_x = fst (source_cell self);
                       pos_y = snd (source_cell self)
                   in case Simulation lib (sd_omega self) vac_perm (sd_dl self)
                             [sd_npml self, sd_npml self] (sd_mode self) (sd_L0 self) of
                        Inl e \<Rightarrow> Inl e
                      | Inr vac_sim0 \<Rightarrow>
                  (case set_src lib vac_sim0 pos_x pos_y 1 of
                     Inl e \<Rightarrow> Inl e
                   | Inr vac_sim \<Rightarrow>
                  (case solve_fields lib vac_sim of
                     Inl e \<Rightarrow> Inl e
                   | Inr (Hx_vac, Hy_vac, Ez_vac) \<Rightarrow>
                  (case Simulation lib (sd_omega self) perms (sd_dl self)
                          [sd_npml self, sd_npml self] (sd_mode self) (sd_L0 self) of
                     Inl e \<Rightarrow> Inl e
                   | Inr sim0 \<Rightarrow>
                  (case set_src lib sim0 pos_x pos_y 1 of
                     Inl e \<Rightarrow> Inl e
                   | Inr sim \<Rightarrow>
                  (case solve_fields lib sim of
                     Inl e \<Rightarrow> Inl e
                   | Inr (Hx, Hy, Ez) \<Rightarrow>
                       Inr (self\<lparr> sd_fields := Some [(''Hx'', slice2 Hx w w),
                                                     (''Hy'', slice2 Hy w w),
                                                     (''Ez'', slice2 Ez w w)],
                                  sd_fields_vac := Some [(''Hx'', slice2 Hx_vac w w),
                                                         (''Hy'', slice2 Hy_vac w w),
                                                         (''Ez'', slice2 Ez_vac w w)] \<rparr>)))))))))"

section \<open>Grid geometry\<close>

text \<open>
  C3. Whatever the device size, the PML thickness and the buffer thickness are (zero
  included), every \<open>SimulationData\<close> object that \<open>__init__\<close> builds has a padded side of
  \<open>grid_size + 2 * npml + 2 * npml_buffer\<close>, its device window starts at
  \<open>npml + npml_buffer\<close> and ends \<open>grid_size\<close> cells later; a \<open>Cavity2D\<close> object has a padded
  side of \<open>device_length + 2 * npml + 2 * cavity_buffer\<close>, a window starting at
  \<open>npml + cavity_buffer\<close> and ending \<open>device_length\<close> cells later. In both, end minus
  start is the device size.
\<close>

theorem padded_grid_geometry:
  "(SimulationData_init epsilons omega source_pos mode grid_size npml npml_buffer dl L0 = Inr sds
      \<and> sd \<in> set sds \<longrightarrow>
        sd_total_grid_size sd = grid_size + 2 * npml + 2 * npml_buffer
      \<and> fst (device_window sd) = npml + npml_buffer
      \<and> snd (device_window sd) = fst (device_window sd) + grid_size
      \<and> snd (device_window sd) - fst (device_window sd) = grid_size)
   \<and> (let cav = Cavity2D_init cmode device_length cnpml cavity_buffer bp cdl cL0;
           total_length = fst (cavity_geometry cav);
           start = fst (snd (cavity_geometry cav));
           stop = snd (snd (cavity_geometry cav))
       in total_length = device_length + 2 * cnpml + 2 * cavity_buffer
        \<and> start = cnpml + cavity_buffer
        \<and> stop = start + device_length
        \<and> stop - start = device_length)"
  by (auto simp: SimulationData_init_def device_window_def cavity_geometry_def
        Cavity2D_init_def Let_def split: option.splits sum.splits)

theorem padded_grid_geometry_witness:
  "\<exists>sds sd. SimulationData_init [] 1 (Some (0, 0)) ''Ez'' 64 16 0 1 1 = Inr sds
      \<and> sd \<in> set sds
      \<and> sd_total_grid_size sd = 96
      \<and> device_window sd = (16, 80)
      \<and> cavity_geometry (Cavity2D_init ''Ez'' 32 0 4 (-1) 1 1) = (40, 4, 36)"
proof -
  let ?sd = "\<lparr> sd_epsilons = [], sd_omega = 1, sd_mode = ''Ez'',
              sd_grid_size = 64, sd_npml = 16, sd_npml_buffer = 0,
              sd_total_grid_size = 96,
              sd_dl = 1, sd_L0 = 1, sd_source_pos = (0, 0),
              sd_fields = None, sd_fields_vac = None, sd_proximities = None \<rparr>"
  have init: "SimulationData_init [] 1 (Some (0, 0)) ''Ez'' 64 16 0 1 1 = Inr [?sd]"
    by (simp add: SimulationData_init_def)
  have mem: "?sd \<in> set [?sd]" by simp
  from padded_grid_geometry [of "[]" 1 "Some (0, 0)" "''Ez''" 64 16 0 1 1 "[?sd]" ?sd
      "''Ez''" 32 0 4 "-1" 1 1] init mem
  have "sd_total_grid_size ?sd = 96 \<and> fst (device_window ?sd) = 16
      \<and> snd (device_window ?sd) = fst (device_window ?sd) + 64
      \<and> cavity_geometry (Cavity2D_init ''Ez'' 32 0 4 (-1) 1 1) = (40, 4, 36)"
    by (simp add: Let_def prod_eq_iff)
  then have "sd_total_grid_size ?sd = 96 \<and> device_window ?sd = (16, 80)
      \<and> cavity_geometry (Cavity2D_init ''Ez'' 32 0 4 (-1) 1 1) = (40, 4, 36)"
    by (simp add: prod_eq_iff)
  with init mem show ?thesis by blast
qed

section \<open>Proximity feature\<close>

lemma slice_bounds_inner:
  "0 \<le> s \<Longrightarrow> s \<le> e \<Longrightarrow> e \<le> int n \<Longrightarrow> slice_bounds n (Some s) (Some e) = (nat s, nat e)"
  by (auto simp: slice_bounds_def clamp_index_def Let_def)

lemma length_py_range [simp]: "length (py_range n) = nat n"
  by (simp add: py_range_def)

lemma slice1_map_py_range:
  assumes "0 \<le> s" "0 \<le> g" "s + g \<le> n"
  shows "slice1 (map h (py_range n)) (Some s) (Some (s + g)) = map (\<lambda>j. h (s + int j)) [0..<nat g]"
proof -
  have b: "slice_bounds (nat n) (Some s) (Some (s + g)) = (nat s, nat (s + g))"
    using assms by (intro slice_bounds_inner) auto
  have "take (nat (s + g) - nat s) (drop (nat s) (map h (py_range n)))
      = map (\<lambda>k. h (int k)) [nat s..<nat s + nat g]"
    using assms by (simp add: py_range_def take_map drop_map drop_upt take_upt nat_add_distrib comp_def)
  also have "[nat s..<nat s + nat g] = map (\<lambda>j. j + nat s) [0..<nat g]"
    by (simp add: map_add_upt add.commute)
  finally have "take (nat (s + g) - nat s) (drop (nat s) (map h (py_range n)))
      = map (\<lambda>j. h (s + int j)) [0..<nat g]"
    using assms by (simp add: comp_def add.commute)
  then show ?thesis
    by (simp add: slice1_def b)
qed

text \<open>
  Cutting the window \<open>[s, s + g)\<close> out of a comprehension over the padded grid only
  shifts the two indices by \<open>s\<close>.
\<close>

lemma window_of_grid:
  assumes "0 \<le> s" "0 < g" "n = g + 2 * s"
  shows "window_of_rows (map (\<lambda>y. map (\<lambda>x. f x y) (py_range n)) (py_range n)) s (s + g)
       = Inr (map (\<lambda>i. map (\<lambda>j. f (s + int j) (s + int i)) [0..<nat g]) [0..<nat g])"
proof -
  have ne: "py_range n \<noteq> []"
  proof -
    have "0 < nat n" using assms by simp
    then show ?thesis by (simp add: py_range_def)
  qed
  have rows: "slice1 (map (\<lambda>y. map (\<lambda>x. f x y) (py_range n)) (py_range n)) (Some s) (Some (s + g))
      = map (\<lambda>i. map (\<lambda>x. f x (s + int i)) (py_range n)) [0..<nat g]"
    using assms by (intro slice1_map_py_range) auto
  have cols: "\<And>y. slice1 (map (\<lambda>x. f x y) (py_range n)) (Some s) (Some (s + g))
      = map (\<lambda>j. f (s + int j) y) [0..<nat g]"
    using assms by (intro slice1_map_py_range) auto
  show ?thesis
    by (simp add: window_of_rows_def ne slice2_def rows cols comp_def)
qed

lemma init_fields:
  assumes "SimulationData_init epsilons omega source_pos mode grid_size npml npml_buffer dl L0 = Inr sds"
    and "self \<in> set sds"
  shows "sd_grid_size self = grid_size" "sd_npml self = npml" "sd_npml_buffer self = npml_buffer"
    "sd_total_grid_size self = grid_size + 2 * npml + 2 * npml_buffer"
  using assms
  by (auto simp: SimulationData_init_def Let_def split: option.splits sum.splits if_splits)

text \<open>A 64-bit integer in range is itself; small differences have squares that fit.\<close>

lemma int64_id: "- (2 ^ 63) \<le> k \<Longrightarrow> k < 2 ^ 63 \<Longrightarrow> int64 k = k"
  by (simp add: int64_def)

lemma square_below:
  fixes a :: int
  assumes "\<bar>a\<bar> < 2 ^ 30"
  shows "0 \<le> a ^ 2" and "a ^ 2 < 2 ^ 60"
proof -
  show "0 \<le> a ^ 2" by simp
  have "\<bar>a\<bar> ^ 2 < (2 ^ 30) ^ 2"
    using assms by (intro power_strict_mono) simp_all
  then show "a ^ 2 < 2 ^ 60" by simp
qed

lemma cell_distance_exact:
  assumes "\<bar>x - x0\<bar> < 2 ^ 30" and "\<bar>y - y0\<bar> < 2 ^ 30" and "0 \<le> c" and "c \<le> 1"
  shows "cell_distance c x0 y0 x y = c + (x - x0) ^ 2 + (y - y0) ^ 2"
proof -
  define A where "A = (x - x0) ^ 2"
  define B where "B = (y - y0) ^ 2"
  have a: "0 \<le> A" "A < 2 ^ 60"
    using square_below [OF assms(1)] by (simp_all add: A_def)
  have b: "0 \<le> B" "B < 2 ^ 60"
    using square_below [OF assms(2)] by (simp_all add: B_def)
  have 1: "int64 (x - x0) = x - x0" using assms(1) by (intro int64_id) simp_all
  have 2: "int64 (y - y0) = y - y0" using assms(2) by (intro int64_id) simp_all
  have 3: "int64 A = A" by (rule int64_id) (use a in simp_all)
  have 4: "int64 B = B" by (rule int64_id) (use b in simp_all)
  have 5: "int64 (c + A) = c + A" by (rule int64_id) (use a assms(3,4) in simp_all)
  have 6: "int64 (c + A + B) = c + A + B" by (rule int64_id) (use a b assms(3,4) in simp_all)
  have "cell_distance c x0 y0 x y = int64 (int64 (c + int64 A) + int64 B)"
    by (simp add: cell_distance_def 1 2 A_def B_def)
  also have "\<dots> = c + A + B" by (simp add: 3 4 5 6)
  finally show ?thesis by (simp add: A_def B_def)
qed

lemma proximity_closed_form:
  assumes g: "0 < sd_grid_size self" and s: "0 \<le> sd_npml self + sd_npml_buffer self"
    and n: "sd_total_grid_size self = sd_grid_size self + 2 * (sd_npml self + sd_npml_buffer self)"
  shows "get_proximity_matrix self ''linear'' =
           Inr (Some (map (\<lambda>i. map (\<lambda>j. sqrt (real_of_int
                   (cell_distance 0 (fst (source_cell self)) (snd (source_cell self))
                      (sd_npml self + sd_npml_buffer self + int j)
                      (sd_npml self + sd_npml_buffer self + int i))))
                 [0..<nat (sd_grid_size self)]) [0..<nat (sd_grid_size self)]))"
    and "get_proximity_matrix self ''squared'' =
           Inr (Some (map (\<lambda>i. map (\<lambda>j. real_of_int
                   (cell_distance 0 (fst (source_cell self)) (snd (source_cell self))
                      (sd_npml self + sd_npml_buffer self + int j)
                      (sd_npml self + sd_npml_buffer self + int i)))
                 [0..<nat (sd_grid_size self)]) [0..<nat (sd_grid_size self)]))"
    and "get_proximity_matrix self ''inv_linear'' =
           Inr (Some (map (\<lambda>i. map (\<lambda>j. 1 / sqrt (real_of_int
                   (cell_distance 1 (fst (source_cell self)) (snd (source_cell self))
                      (sd_npml self + sd_npml_buffer self + int j)
                      (sd_npml self + sd_npml_buffer self + int i))))
                 [0..<nat (sd_grid_size self)]) [0..<nat (sd_grid_size self)]))"
    and "get_proximity_matrix self ''inv_squared'' =
           Inr (Some (map (\<lambda>i. map (\<lambda>j. 1 / real_of_int
                   (cell_distance 1 (fst (source_cell self)) (snd (source_cell self))
                      (sd_npml self + sd_npml_buffer self + int j)
                      (sd_npml self + sd_npml_buffer self + int i)))
                 [0..<nat (sd_grid_size self)]) [0..<nat (sd_grid_size self)]))"
  using window_of_grid [OF s g n]
  by (simp_all add: get_proximity_matrix_def device_window_def distance_rows_def Let_def comp_def)

text \<open>
  C4. Take an object built by \<open>__init__\<close> with a device of at least one cell, PML and
  buffer thicknesses that are not negative, and a padded side and source coordinates
  below \<open>2\<^sup>2\<^sup>9\<close> in absolute value (so that no 64-bit operation wraps); write \<open>(x0, y0)\<close>
  for its source position, which is in device-window coordinates. Each of the four
  transform names makes \<open>get_proximity_matrix\<close> return an array of the device's shape
  (the padded array clipped to the device window), and for every cell \<open>(x, y)\<close> of the
  device, with \<open>d2 = (x - x0)\<^sup>2 + (y - y0)\<^sup>2\<close>, the entry in row \<open>y\<close>, column \<open>x\<close> is
  \<open>sqrt d2\<close> for \<open>linear\<close>, \<open>d2\<close> for \<open>squared\<close>, \<open>1 / sqrt (1 + d2)\<close> for \<open>inv_linear\<close> and
  \<open>1 / (1 + d2)\<close> for \<open>inv_squared\<close>. The witness is the 3 by 3 device with its source
  at \<open>(0, 0)\<close>: \<open>squared[1][1] = 2\<close>, \<open>inv_squared[0][0] = 1\<close>, \<open>linear[2][2] = sqrt 8\<close>.
\<close>

theorem proximity_matrix_transforms:
  assumes init: "SimulationData_init epsilons omega source_pos mode grid_size npml npml_buffer dl L0 = Inr sds"
    and mem: "self \<in> set sds"
    and sizes: "0 \<le> npml" "0 \<le> npml_buffer" "0 < grid_size"
    and small: "grid_size + 2 * npml + 2 * npml_buffer < 2 ^ 29"
      "\<bar>fst (sd_source_pos self)\<bar> < 2 ^ 29" "\<bar>snd (sd_source_pos self)\<bar> < 2 ^ 29"
  shows "\<exists>lin sq il isq.
      get_proximity_matrix self ''linear'' = Inr (Some lin)
    \<and> get_proximity_matrix self ''squared'' = Inr (Some sq)
    \<and> get_proximity_matrix self ''inv_linear'' = Inr (Some il)
    \<and> get_proximity_matrix self ''inv_squared'' = Inr (Some isq)
    \<and> list_all (\<lambda>m. length m = nat grid_size \<and> list_all (\<lambda>row. length row = nat grid_size) m)
          [lin, sq, il, isq]
    \<and> (\<forall>x y. 0 \<le> x \<and> x < grid_size \<and> 0 \<le> y \<and> y < grid_size \<longrightarrow>
          (let d2 = real_of_int ((x - fst (sd_source_pos self)) ^ 2 + (y - snd (sd_source_pos self)) ^ 2)
           in lin ! nat y ! nat x = sqrt d2
            \<and> sq ! nat y ! nat x = d2
            \<and> il ! nat y ! nat x = 1 / sqrt (1 + d2)
            \<and> isq ! nat y ! nat x = 1 / (1 + d2)))"
proof -
  note f = init_fields [OF init mem]
  let ?s = "npml + npml_buffer"
  let ?sx = "fst (sd_source_pos self)" and ?sy = "snd (sd_source_pos self)"
  have g: "0 < sd_grid_size self" and s: "0 \<le> sd_npml self + sd_npml_buffer self"
    and n: "sd_total_grid_size self = sd_grid_size self + 2 * (sd_npml self + sd_npml_buffer self)"
    using sizes by (simp_all add: f)
  note cf = proximity_closed_form [OF g s n, unfolded f]
  have x0: "fst (source_cell self) = ?sx + ?s"
    using sizes small by (simp add: source_cell_def device_window_def f Let_def int64_id)
  have y0: "snd (source_cell self) = ?sy + ?s"
    using sizes small by (simp add: source_cell_def device_window_def f Let_def int64_id)
  have cell: "cell_distance c (fst (source_cell self)) (snd (source_cell self))
        (npml + (npml_buffer + x)) (npml + (npml_buffer + y))
      = c + (x - ?sx) ^ 2 + (y - ?sy) ^ 2"
    if "0 \<le> x" "x < grid_size" "0 \<le> y" "y < grid_size" "0 \<le> c" "c \<le> 1" for c x y
  proof -
    have "\<bar>npml + (npml_buffer + x) - (?sx + ?s)\<bar> < 2 ^ 30"
        "\<bar>npml + (npml_buffer + y) - (?sy + ?s)\<bar> < 2 ^ 30"
      using that sizes small by auto
    from cell_distance_exact [OF this that(5,6)] show ?thesis
      by (simp add: x0 y0)
  qed
  show ?thesis
    unfolding cf
    by (intro exI conjI refl) (auto simp: list_all_iff Let_def cell add.assoc)
qed

theorem proximity_matrix_transforms_witness:
  "\<exists>sds self lin sq isq.
      SimulationData_init [] 1 (Some (0, 0)) ''Ez'' 3 16 16 1 1 = Inr sds
    \<and> self \<in> set sds
    \<and> get_proximity_matrix self ''linear'' = Inr (Some lin)
    \<and> get_proximity_matrix self ''squared'' = Inr (Some sq)
    \<and> get_proximity_matrix self ''inv_squared'' = Inr (Some isq)
    \<and> sq ! 1 ! 1 = 2 \<and> isq ! 0 ! 0 = 1 \<and> lin ! 2 ! 2 = sqrt 8"
proof -
  let ?sd = "\<lparr> sd_epsilons = [], sd_omega = 1, sd_mode = ''Ez'',
              sd_grid_size = 3, sd_npml = 16, sd_npml_buffer = 16,
              sd_total_grid_size = 67,
              sd_dl = 1, sd_L0 = 1, sd_source_pos = (0, 0),
              sd_fields = None, sd_fields_vac = None, sd_proximities = None \<rparr>"
  have init: "SimulationData_init [] 1 (Some (0, 0)) ''Ez'' 3 16 16 1 1 = Inr [?sd]"
    by (simp add: SimulationData_init_def)
  have mem: "?sd \<in> set [?sd]" by simp
  from proximity_matrix_transforms [OF init mem]
  obtain lin sq il isq where
      r: "get_proximity_matrix ?sd ''linear'' = Inr (Some lin)"
         "get_proximity_matrix ?sd ''squared'' = Inr (Some sq)"
         "get_proximity_matrix ?sd ''inv_squared'' = Inr (Some isq)"
    and cells: "\<forall>x y. 0 \<le> x \<and> x < 3 \<and> 0 \<le> y \<and> y < 3 \<longrightarrow>
          (let d2 = real_of_int ((x - fst (sd_source_pos ?sd)) ^ 2 + (y - snd (sd_source_pos ?sd)) ^ 2)
           in lin ! nat y ! nat x = sqrt d2
            \<and> sq ! nat y ! nat x = d2
            \<and> il ! nat y ! nat x = 1 / sqrt (1 + d2)
            \<and> isq ! nat y ! nat x = 1 / (1 + d2))"
    by auto
  from cells [rule_format, of 1 1] have "sq ! 1 ! 1 = 2" by (simp add: Let_def)
  moreover from cells [rule_format, of 0 0] have "isq ! 0 ! 0 = 1" by (simp add: Let_def)
  moreover from cells [rule_format, of 2 2] have "lin ! 2 ! 2 = sqrt 8" by (simp add: Let_def)
  ultimately show ?thesis using init mem r by blast
qed

text \<open>
  C6. A transform name outside the four that \<open>get_proximity_matrix\<close> tests for raises
  nothing: every \<^verbatim>\<open>if\<close> fails, the function body ends, and the caller receives \<open>None\<close>.
\<close>

theorem unknown_transform_returns_None:
  "mode \<notin> {''linear'', ''squared'', ''inv_linear'', ''inv_squared''} \<Longrightarrow>
     get_proximity_matrix self mode = Inr None"
  by (simp add: get_proximity_matrix_def Let_def)

theorem unknown_transform_returns_None_witness:
  "''cubic'' \<notin> {''linear'', ''squared'', ''inv_linear'', ''inv_squared''}
   \<and> get_proximity_matrix
        \<lparr> sd_epsilons = [], sd_omega = 1, sd_mode = ''Ez'',
          sd_grid_size = 3, sd_npml = 16, sd_npml_buffer = 16, sd_total_grid_size = 67,
          sd_dl = 1, sd_L0 = 1, sd_source_pos = (0, 0),
          sd_fields = None, sd_fields_vac = None, sd_proximities = None \<rparr> ''cubic'' = Inr None"
  using unknown_transform_returns_None [of "''cubic''"] by simp

section \<open>Default source position\<close>

lemma default_positions:
  assumes "2 \<le> npml_buffer" "1 \<le> grid_size" "npml_buffer - 1 \<le> 2 ^ 63" "grid_size \<le> 2 ^ 63"
  shows "\<exists>sds. SimulationData_init epsilons omega None mode grid_size npml npml_buffer dl L0 = Inr sds
     \<and> map sd_source_pos sds = List.product [0..npml_buffer - 2] [0..grid_size - 1]"
  using assms
  by (simp add: SimulationData_init_def randint_def Let_def product_concat_map map_concat comp_def)

text \<open>
  C7, as the code has it. With no source position given, a buffer of at least two cells,
  a device of at least one and a padded side within the 64-bit range, \<open>__init__\<close> draws
  \<open>pos_x\<close> from \<open>0 \<dots> npml_buffer - 2\<close> and \<open>pos_y\<close> from \<open>0 \<dots> grid_size - 1\<close>:
  \<^verbatim>\<open>np.random.randint(0, npml_buffer - 1)\<close> excludes its upper bound, as
  \<^verbatim>\<open>np.random.randint(0, grid_size)\<close> does. Every pair of the rectangle is a possible
  position and is listed once among the equally likely outcomes. The pair is in
  device-window coordinates: the cell of the padded grid that \<open>solve\<close> and
  \<open>get_proximity_matrix\<close> use for the source is the pair plus \<open>npml + npml_buffer\<close>, so
  the default source never lies before the first row or column of the device window,
  that is, never in the buffer strip. A source position that is given is stored as it
  is.
\<close>

theorem default_source_position:
  "(2 \<le> npml_buffer \<and> 1 \<le> grid_size \<and> 0 \<le> npml
      \<and> grid_size + 2 * npml + 2 * npml_buffer < 2 ^ 63 \<longrightarrow>
      (\<exists>sds. SimulationData_init epsilons omega None mode grid_size npml npml_buffer dl L0 = Inr sds
         \<and> distinct (map sd_source_pos sds)
         \<and> set (map sd_source_pos sds) = {0..npml_buffer - 2} \<times> {0..grid_size - 1}
         \<and> list_all (\<lambda>sd.
               source_cell sd = (npml + npml_buffer + fst (sd_source_pos sd),
                                 npml + npml_buffer + snd (sd_source_pos sd))
             \<and> npml + npml_buffer \<le> fst (source_cell sd)
             \<and> npml + npml_buffer \<le> snd (source_cell sd)) sds))
   \<and> (SimulationData_init epsilons omega (Some pos) mode grid_size npml npml_buffer dl L0 = Inr sds
        \<longrightarrow> map sd_source_pos sds = [pos])"
proof (intro conjI impI)
  assume a: "2 \<le> npml_buffer \<and> 1 \<le> grid_size \<and> 0 \<le> npml
      \<and> grid_size + 2 * npml + 2 * npml_buffer < 2 ^ 63"
  then have b: "2 \<le> npml_buffer" "1 \<le> grid_size" "npml_buffer - 1 \<le> 2 ^ 63" "grid_size \<le> 2 ^ 63"
    by simp_all
  from default_positions [OF b, of epsilons omega mode npml dl L0]
  obtain sds where
    ret: "SimulationData_init epsilons omega None mode grid_size npml npml_buffer dl L0 = Inr sds"
    and pos: "map sd_source_pos sds = List.product [0..npml_buffer - 2] [0..grid_size - 1]"
    by blast
  have d: "distinct (map sd_source_pos sds)"
    unfolding pos by (simp add: distinct_product)
  have st: "set (map sd_source_pos sds) = {0..npml_buffer - 2} \<times> {0..grid_size - 1}"
    unfolding pos by simp
  have cells: "list_all (\<lambda>sd.
               source_cell sd = (npml + npml_buffer + fst (sd_source_pos sd),
                                 npml + npml_buffer + snd (sd_source_pos sd))
             \<and> npml + npml_buffer \<le> fst (source_cell sd)
             \<and> npml + npml_buffer \<le> snd (source_cell sd)) sds"
    unfolding list_all_iff
  proof
    fix sd assume m: "sd \<in> set sds"
    note f = init_fields [OF ret m]
    from m have "sd_source_pos sd \<in> set (map sd_source_pos sds)" by simp
    then have p: "0 \<le> fst (sd_source_pos sd)" "fst (sd_source_pos sd) \<le> npml_buffer - 2"
        "0 \<le> snd (sd_source_pos sd)" "snd (sd_source_pos sd) \<le> grid_size - 1"
      unfolding st by (auto simp: mem_Times_iff)
    have c: "source_cell sd = (npml + npml_buffer + fst (sd_source_pos sd),
                                 npml + npml_buffer + snd (sd_source_pos sd))"
      using a p by (simp add: source_cell_def device_window_def f Let_def int64_id add.commute)
    show "source_cell sd = (npml + npml_buffer + fst (sd_source_pos sd),
                                 npml + npml_buffer + snd (sd_source_pos sd))
             \<and> npml + npml_buffer \<le> fst (source_cell sd)
             \<and> npml + npml_buffer \<le> snd (source_cell sd)"
      using p by (simp add: c)
  qed
  from ret d st cells
  show "\<exists>sds. SimulationData_init epsilons omega None mode grid_size npml npml_buffer dl L0 = Inr sds
         \<and> distinct (map sd_source_pos sds)
         \<and> set (map sd_source_pos sds) = {0..npml_buffer - 2} \<times> {0..grid_size - 1}
         \<and> list_all (\<lambda>sd.
               source_cell sd = (npml + npml_buffer + fst (sd_source_pos sd),
                                 npml + npml_buffer + snd (sd_source_pos sd))
             \<and> npml + npml_buffer \<le> fst (source_cell sd)
             \<and> npml + npml_buffer \<le> snd (source_cell sd)) sds"
    by blast
next
  assume "SimulationData_init epsilons omega (Some pos) mode grid_size npml npml_buffer dl L0 = Inr sds"
  then show "map sd_source_pos sds = [pos]"
    by (auto simp: SimulationData_init_def Let_def)
qed

theorem default_source_position_witness:
  "\<exists>sds sds'. SimulationData_init [] 1 None ''Ez'' 2 0 3 1 1 = Inr sds
      \<and> set (map sd_source_pos sds) = {0..1} \<times> {0..1}
      \<and> list_all (\<lambda>sd. 3 \<le> fst (source_cell sd) \<and> 3 \<le> snd (source_cell sd)) sds
      \<and> SimulationData_init [] 1 (Some (7, 5)) ''Ez'' 2 0 3 1 1 = Inr sds'
      \<and> map sd_source_pos sds' = [(7, 5)]"
proof -
  let ?sd = "\<lparr> sd_epsilons = [], sd_omega = 1, sd_mode = ''Ez'',
              sd_grid_size = 2, sd_npml = 0, sd_npml_buffer = 3, sd_total_grid_size = 8,
              sd_dl = 1, sd_L0 = 1, sd_source_pos = (7, 5),
              sd_fields = None, sd_fields_vac = None, sd_proximities = None \<rparr>"
  have given: "SimulationData_init [] 1 (Some (7, 5)) ''Ez'' 2 0 3 1 1 = Inr [?sd]"
    by (simp add: SimulationData_init_def)
  note t = default_source_position [of 3 2 0 "[]" 1 "''Ez''" 1 1 "(7, 5)" "[?sd]"]
  from t obtain sds where
    a: "SimulationData_init [] 1 None ''Ez'' 2 0 3 1 1 = Inr sds"
    and b: "set (map sd_source_pos sds) = {0..1} \<times> {0..1}"
    and c0: "list_all (\<lambda>sd.
               source_cell sd = (0 + 3 + fst (sd_source_pos sd), 0 + 3 + snd (sd_source_pos sd))
             \<and> 0 + 3 \<le> fst (source_cell sd)
             \<and> 0 + 3 \<le> snd (source_cell sd)) sds"
    by auto
  from c0 have c: "list_all (\<lambda>sd. 3 \<le> fst (source_cell sd) \<and> 3 \<le> snd (source_cell sd)) sds"
    unfolding list_all_iff by (simp only: add_0) blast
  from t given have e: "map sd_source_pos [?sd] = [(7, 5)]"
    by blast
  show ?thesis
    by (intro exI conjI) (rule a b c given e)+
qed

text \<open>
  C7 as the spec words it gives \<open>pos_x\<close> the closed range \<open>[0, buffer_thickness - 1]\<close> and
  has the pair in buffer-strip coordinates. With a buffer of 3 cells, no PML and a
  device of 2 the draws give four positions; \<open>(2, 0)\<close>, which lies in
  \<open>[0, 3 - 1] \<times> [0, 2)\<close>, is not one of them; and the source cell of each of the four
  has a row index of at least 3, past the buffer strip, which is rows 0 to 2.
\<close>

theorem source_position_counterexample:
  "\<exists>sds. SimulationData_init [] 1 None ''Ez'' 2 0 3 1 1 = Inr sds
     \<and> map sd_source_pos sds = [(0, 0), (0, 1), (1, 0), (1, 1)]
     \<and> (2, 0) \<in> {0..(3::int) - 1} \<times> {0..<(2::int)}
     \<and> (2, 0) \<notin> set (map sd_source_pos sds)
     \<and> map source_cell sds = [(3, 3), (3, 4), (4, 3), (4, 4)]
     \<and> list_all (\<lambda>sd. fst (source_cell sd) \<notin> {0..<3}) sds"
proof -
  have u: "[0..(1::int)] = [0, 1]" by (simp add: upto_rec1)
  show ?thesis
    by (simp add: SimulationData_init_def randint_def Let_def u source_cell_def
          device_window_def int64_def)
qed

section \<open>The ellipse generator\<close>

lemma ellipse_fill_closed_form:
  assumes "0 \<le> s"
  shows "ellipse_fill C s (replicate (nat s) (replicate (nat s) 1)) x0 y0 rx ry =
     map (\<lambda>i. map (\<lambda>j.
        if (real_of_int (int j - x0) / real_of_int rx) ^ 2
             + (real_of_int (int i - y0) / real_of_int ry) ^ 2 \<le> 1 then 1 else eps_si C)
       [0..<nat s]) [0..<nat s]"
  apply (rule nth_equalityI)
   apply (simp add: ellipse_fill_def mask_assign_def Let_def)
  apply (rule nth_equalityI)
   apply (simp add: ellipse_fill_def mask_assign_def Let_def py_range_def)
  apply (simp add: ellipse_fill_def mask_assign_def Let_def py_range_def)
  done

lemma perm_ellipse_outcomes:
  assumes "33 \<le> s" and "s - 16 \<le> 2 ^ 63"
  shows "perm_ellipse C s = Inr (concat (map (\<lambda>(x0, y0). map (\<lambda>(rx, ry).
            ellipse_fill C s (replicate (nat s) (replicate (nat s) 1)) x0 y0 rx ry)
              (List.product [5..15] [5..15])) (List.product [16..s - 17] [16..s - 17])))"
  using assms by (simp add: perm_ellipse_def np_ones_def randint2_def randint_def)

lemma perm_ellipse_needs_33: "perm_ellipse C s = Inr ps \<Longrightarrow> 33 \<le> s"
  by (auto simp: perm_ellipse_def np_ones_def randint2_def randint_def split: if_splits sum.splits)

lemma perm_ellipse_needs_int64: "perm_ellipse C s = Inr ps \<Longrightarrow> s - 16 \<le> 2 ^ 63"
  by (auto simp: perm_ellipse_def np_ones_def randint2_def randint_def split: if_splits sum.splits)

lemma outside_every_ellipse:
  assumes "0 < rx" "rx < 16"
  shows "\<not> (real_of_int (0 - 16) / real_of_int rx) ^ 2 + (real_of_int (0 - 16) / real_of_int ry) ^ 2 \<le> 1"
proof -
  have "1 < 16 / real_of_int rx" using assms by simp
  then have a: "1 < (16 / real_of_int rx) ^ 2" by (rule one_less_power) simp
  have b: "0 \<le> (16 / real_of_int ry) ^ 2" by simp
  have "(real_of_int (0 - 16) / real_of_int rx) ^ 2 = (16 / real_of_int rx) ^ 2"
    and "(real_of_int (0 - 16) / real_of_int ry) ^ 2 = (16 / real_of_int ry) ^ 2"
    by simp_all
  with a b show ?thesis by linarith
qed

lemma outcome_of_draws:
  assumes "(x0, y0) \<in> set cs" and "(rx, ry) \<in> set rs"
  shows "f x0 y0 rx ry \<in> set (concat (map (\<lambda>(x0, y0). map (\<lambda>(rx, ry). f x0 y0 rx ry) rs) cs))"
  using assms by force

lemma draws_of_outcome:
  assumes "p \<in> set (concat (map (\<lambda>(x0, y0). map (\<lambda>(rx, ry). f x0 y0 rx ry) rs) cs))"
  shows "\<exists>x0 y0 rx ry. (x0, y0) \<in> set cs \<and> (rx, ry) \<in> set rs \<and> p = f x0 y0 rx ry"
  using assms by auto

text \<open>
  C8, as the code has it. Whenever \<open>perm_ellipse\<close> returns (which needs \<open>s \<ge> 33\<close>), each
  block it can return comes from a centre \<open>(x0, y0)\<close> in \<open>[16, s - 16)\<close> and radii in
  \<open>[5, 16)\<close>, and the cell in row \<open>y\<close>, column \<open>x\<close> is 1.0 where
  \<open>((x - x0) / rx)\<^sup>2 + ((y - y0) / ry)\<^sup>2 \<le> 1\<close> and \<open>eps_si\<close> everywhere else: the ellipse keeps
  the background value and the background receives the constant.
\<close>

theorem perm_ellipse_fills_outside:
  assumes "perm_ellipse C s = Inr ps" and "p \<in> set ps"
  shows "\<exists>x0 y0 rx ry.
      x0 \<in> {16..<s - 16} \<and> y0 \<in> {16..<s - 16} \<and> rx \<in> {5..<16} \<and> ry \<in> {5..<16}
    \<and> (\<forall>x y. 0 \<le> x \<and> x < s \<and> 0 \<le> y \<and> y < s \<longrightarrow>
          p ! nat y ! nat x =
            (if (real_of_int (x - x0) / real_of_int rx) ^ 2
                  + (real_of_int (y - y0) / real_of_int ry) ^ 2 \<le> 1
             then 1 else eps_si C))"
proof -
  have s: "33 \<le> s" using assms(1) by (rule perm_ellipse_needs_33)
  have s': "s - 16 \<le> 2 ^ 63" using assms(1) by (rule perm_ellipse_needs_int64)
  have "p \<in> set (concat (map (\<lambda>(x0, y0). map (\<lambda>(rx, ry).
            ellipse_fill C s (replicate (nat s) (replicate (nat s) 1)) x0 y0 rx ry)
              (List.product [5..15] [5..15])) (List.product [16..s - 17] [16..s - 17])))"
    using assms perm_ellipse_outcomes [OF s s', of C] by simp
  from draws_of_outcome [OF this]
  obtain x0 y0 rx ry where
      c: "(x0, y0) \<in> set (List.product [16..s - 17] [16..s - 17])"
    and r: "(rx, ry) \<in> set (List.product [5..15] [5..15])"
    and p: "p = ellipse_fill C s (replicate (nat s) (replicate (nat s) 1)) x0 y0 rx ry"
    by blast
  have cf: "p = map (\<lambda>i. map (\<lambda>j.
        if (real_of_int (int j - x0) / real_of_int rx) ^ 2
             + (real_of_int (int i - y0) / real_of_int ry) ^ 2 \<le> 1 then 1 else eps_si C)
       [0..<nat s]) [0..<nat s]"
    unfolding p using s by (intro ellipse_fill_closed_form) simp
  have "\<forall>x y. 0 \<le> x \<and> x < s \<and> 0 \<le> y \<and> y < s \<longrightarrow>
          p ! nat y ! nat x =
            (if (real_of_int (x - x0) / real_of_int rx) ^ 2
                  + (real_of_int (y - y0) / real_of_int ry) ^ 2 \<le> 1
             then 1 else eps_si C)"
    unfolding cf by simp
  moreover have "x0 \<in> {16..<s - 16} \<and> y0 \<in> {16..<s - 16} \<and> rx \<in> {5..<16} \<and> ry \<in> {5..<16}"
  proof -
    from c have "16 \<le> x0 \<and> x0 \<le> s - 17 \<and> 16 \<le> y0 \<and> y0 \<le> s - 17"
      by (simp only: set_product set_upto mem_Sigma_iff atLeastAtMost_iff)
    moreover from r have "5 \<le> rx \<and> rx \<le> 15 \<and> 5 \<le> ry \<and> ry \<le> 15"
      by (simp only: set_product set_upto mem_Sigma_iff atLeastAtMost_iff)
    ultimately show ?thesis by simp
  qed
  ultimately show ?thesis by blast
qed

theorem perm_ellipse_fills_outside_witness:
  "\<exists>ps p. perm_ellipse \<lparr> EPSILON0 = 1, MU0 = 1, eps_si = 12 \<rparr> 33 = Inr ps \<and> p \<in> set ps
      \<and> p ! 16 ! 16 = 1 \<and> p ! 0 ! 0 = 12"
proof -
  let ?C = "\<lparr> EPSILON0 = 1, MU0 = 1, eps_si = 12 \<rparr>"
  let ?p = "ellipse_fill ?C 33 (replicate (nat 33) (replicate (nat 33) 1)) 16 16 5 5"
  let ?ps = "concat (map (\<lambda>(x0, y0). map (\<lambda>(rx, ry).
            ellipse_fill ?C 33 (replicate (nat 33) (replicate (nat 33) 1)) x0 y0 rx ry)
              (List.product [5..15] [5..15])) (List.product [16..33 - 17] [16..33 - 17]))"
  have ret: "perm_ellipse ?C 33 = Inr ?ps"
    by (rule perm_ellipse_outcomes) simp_all
  have mem: "?p \<in> set ?ps"
  proof -
    have "(16, 16) \<in> set (List.product [16..33 - 17] [16..(33::int) - 17])" by simp
    moreover have "(5, 5) \<in> set (List.product [5..15] [5..(15::int)])" by simp
    ultimately show ?thesis
      by (rule outcome_of_draws)
  qed
  from perm_ellipse_fills_outside [OF ret mem]
  obtain x0 y0 rx ry where
      rng: "x0 \<in> {16..<33 - 16}" "y0 \<in> {16..<33 - 16}" "rx \<in> {5..<16}" "ry \<in> {5..<16}"
    and cells: "\<forall>x y. 0 \<le> x \<and> x < 33 \<and> 0 \<le> y \<and> y < 33 \<longrightarrow>
          ?p ! nat y ! nat x =
            (if (real_of_int (x - x0) / real_of_int rx) ^ 2
                  + (real_of_int (y - y0) / real_of_int ry) ^ 2 \<le> 1
             then 1 else eps_si ?C)"
    by blast
  have x0: "x0 = 16" and y0: "y0 = 16" using rng by auto
  have rx: "0 < rx" "rx < 16" using rng by auto
  from cells [rule_format, of 16 16] have centre: "?p ! 16 ! 16 = 1"
    by (simp add: x0 y0)
  from cells [rule_format, of 0 0] outside_every_ellipse [OF rx, of ry]
  have corner: "?p ! 0 ! 0 = 12"
    by (simp add: x0 y0)
  show ?thesis
    by (intro exI conjI) (rule ret mem centre corner)+
qed

section \<open>Invalid polarization\<close>

lemma prepare_accepts_TE:
  "\<exists>r. Cavity2D_prepare
       \<lparr> Simulation = (\<lambda>omega eps_r dl NPML pol L0. Inr ()),
         set_src = (\<lambda>sim i j v. Inr sim),
         solve_fields = (\<lambda>sim. Inr ([], [], [])),
         unpack_derivs = (\<lambda>sim. ([], [], [], [])) \<rparr>
       (Cavity2D_init ''TE'' 1 0 1 (-5) 1 1) [[2]] 1 None None = Inr r"
proof -
  let ?t = "Cavity2D_prepare
       \<lparr> Simulation = (\<lambda>omega eps_r dl NPML pol L0. Inr ()),
         set_src = (\<lambda>sim i j v. Inr sim),
         solve_fields = (\<lambda>sim. Inr ([], [], [])),
         unpack_derivs = (\<lambda>sim. ([], [], [], [])) \<rparr>
       (Cavity2D_init ''TE'' 1 0 1 (-5) 1 1) [[2]] 1 None None"
  have h: "case ?t of Inl e \<Rightarrow> False | Inr r \<Rightarrow> True"
    by code_simp
  show ?thesis
  proof (cases ?t)
    case (Inl e)
    with h show ?thesis by simp
  next
    case (Inr r)
    then show ?thesis by blast
  qed
qed

text \<open>
  C5, as the code has it. For a polarization other than \<open>Ez\<close> and \<open>Hz\<close>,
  \<open>Cavity2D.solve\<close> never returns fields and leaves the object as it was. The
  polarization is only looked at after the grid has been built, the simulation
  constructed and the source set: an exception of one of these steps is what the caller
  sees; when they all succeed the call raises ValueError with the fixed message
  \<open>Polarization must be Ez or Hz!\<close>, whatever the polarization was.
\<close>

theorem invalid_polarization_raises:
  assumes "cav_mode self \<noteq> ''Ez''" and "cav_mode self \<noteq> ''Hz''"
  shows "Cavity2D_solve lib self epsilons omega src_x src_y =
     (self,
      case Cavity2D_prepare lib self epsilons omega src_x src_y of
        Inl e \<Rightarrow> Inl e
      | Inr r \<Rightarrow> Inl (ValueError ''Polarization must be Ez or Hz!''))"
  using assms
  by (simp add: Cavity2D_solve_def split: sum.splits prod.splits)

theorem invalid_polarization_raises_witness:
  "Cavity2D_solve
     \<lparr> Simulation = (\<lambda>omega eps_r dl NPML pol L0. Inr ()),
       set_src = (\<lambda>sim i j v. Inr sim),
       solve_fields = (\<lambda>sim. Inr ([], [], [])),
       unpack_derivs = (\<lambda>sim. ([], [], [], [])) \<rparr>
     (Cavity2D_init ''TE'' 1 0 1 (-5) 1 1) [[2]] 1 None None
   = (Cavity2D_init ''TE'' 1 0 1 (-5) 1 1, Inl (ValueError ''Polarization must be Ez or Hz!''))"
proof -
  let ?lib = "\<lparr> Simulation = (\<lambda>omega eps_r dl NPML pol L0. Inr ()),
       set_src = (\<lambda>sim i j v. Inr sim),
       solve_fields = (\<lambda>sim. Inr ([], [], [])),
       unpack_derivs = (\<lambda>sim. ([], [], [], [])) \<rparr>"
  let ?self = "Cavity2D_init ''TE'' 1 0 1 (-5) 1 1"
  have m: "cav_mode ?self \<noteq> ''Ez''" "cav_mode ?self \<noteq> ''Hz''"
    by (simp_all add: Cavity2D_init_def)
  show ?thesis
    using invalid_polarization_raises [OF m, of ?lib "[[2]]" 1 None None] prepare_accepts_TE
    by auto
qed

text \<open>
  C5 as the spec words it has the message name the offending mode. Called with the
  polarization \<open>TE\<close> (on a library whose constructor accepts it, so that the method's
  own check is reached), the message is the fixed text, in which \<open>TE\<close> does not occur.
\<close>

theorem invalid_polarization_counterexample:
  "\<exists>msg. snd (Cavity2D_solve
       \<lparr> Simulation = (\<lambda>omega eps_r dl NPML pol L0. Inr ()),
         set_src = (\<lambda>sim i j v. Inr sim),
         solve_fields = (\<lambda>sim. Inr ([], [], [])),
         unpack_derivs = (\<lambda>sim. ([], [], [], [])) \<rparr>
       (Cavity2D_init ''TE'' 1 0 1 (-5) 1 1) [[2]] 1 None None) = Inl (ValueError msg)
     \<and> \<not> sublist ''TE'' msg"
proof -
  have n: "\<not> sublist ''TE'' ''Polarization must be Ez or Hz!''"
    by (simp add: sublist_code prefix_code)
  from prepare_accepts_TE n show ?thesis
    by (auto simp: Cavity2D_solve_def Cavity2D_init_def split: sum.splits prod.splits)
qed

section \<open>The operators\<close>

lemma nrows_grid [simp]: "nrows (grid n f) = n"
  by (simp add: grid_def nrows_def)

lemma ncols_grid [simp]: "ncols (grid n f) = n"
  by (cases n) (simp_all add: grid_def ncols_def upt_conv_Cons del: upt_Suc)

lemma nth_grid [simp]: "i < n \<Longrightarrow> j < n \<Longrightarrow> grid n f ! i ! j = f i j"
  by (simp add: grid_def)

lemma length_grid [simp]: "length (grid n f) = n"
  by (simp add: grid_def)

lemma length_row_grid [simp]: "i < n \<Longrightarrow> length (grid n f ! i) = n"
  by (simp add: grid_def)

lemma np_ones_grid: "0 \<le> n \<Longrightarrow> np_ones n n = Inr (grid (nat n) (\<lambda>i j. 1))"
  by (simp add: np_ones_def grid_def map_replicate_const)

lemma assign_scalar_grid:
  "assign_scalar (grid n f) rs cs v =
     grid n (\<lambda>i j. if in_slice (slice_bounds n (fst rs) (snd rs)) i
                      \<and> in_slice (slice_bounds n (fst cs) (snd cs)) j then v else f i j)"
  by (simp add: assign_scalar_def Let_def) (simp add: grid_def)

lemma slice_bounds_all: "slice_bounds n None None = (0, n)"
  by (simp add: slice_bounds_def)

lemma slice_bounds_upto:
  "0 \<le> s \<Longrightarrow> s \<le> int n \<Longrightarrow> slice_bounds n None (Some s) = (0, nat s)"
  by (simp add: slice_bounds_def clamp_index_def)

lemma slice_bounds_from:
  "0 \<le> e \<Longrightarrow> e \<le> int n \<Longrightarrow> slice_bounds n (Some e) None = (nat e, n)"
  by (auto simp: slice_bounds_def clamp_index_def Let_def)

text \<open>The array of \<open>get_operators\<close>: ones on the device window, the buffer value around it.\<close>

lemma cavity_perms_closed_form:
  assumes "0 \<le> cav_npml self" "0 \<le> cav_cavity_buffer self" "0 \<le> cav_device_length self"
  shows "cavity_perms self =
     Inr (grid (nat (cav_device_length self + 2 * cav_cavity_buffer self + 2 * cav_npml self))
        (\<lambda>i j. if nat (cav_npml self + cav_cavity_buffer self) \<le> i
                  \<and> i < nat (cav_npml self + cav_cavity_buffer self + cav_device_length self)
                  \<and> nat (cav_npml self + cav_cavity_buffer self) \<le> j
                  \<and> j < nat (cav_npml self + cav_cavity_buffer self + cav_device_length self)
                then 1 else cav_buffer_permittivity self))"
proof -
  let ?n = "nat (cav_device_length self + 2 * cav_cavity_buffer self + 2 * cav_npml self)"
  let ?s = "cav_npml self + cav_cavity_buffer self"
  let ?e = "?s + cav_device_length self"
  have ones: "np_ones (cav_device_length self + 2 * cav_cavity_buffer self + 2 * cav_npml self)
      (cav_device_length self + 2 * cav_cavity_buffer self + 2 * cav_npml self)
      = Inr (grid ?n (\<lambda>i j. 1))"
    using assms by (intro np_ones_grid) simp
  have b1: "slice_bounds ?n None (Some ?s) = (0, nat ?s)"
    using assms by (intro slice_bounds_upto) auto
  have b2: "slice_bounds ?n (Some ?e) None = (nat ?e, ?n)"
    using assms by (intro slice_bounds_from) auto
  have "cavity_perms self = Inr (grid ?n (\<lambda>i j.
      if in_slice (nat ?e, ?n) i \<and> in_slice (0, ?n) j then cav_buffer_permittivity self
      else if in_slice (0, ?n) i \<and> in_slice (nat ?e, ?n) j then cav_buffer_permittivity self
      else if in_slice (0, nat ?s) i \<and> in_slice (0, ?n) j then cav_buffer_permittivity self
      else if in_slice (0, ?n) i \<and> in_slice (0, nat ?s) j then cav_buffer_permittivity self
      else 1))"
    by (simp add: cavity_perms_def cavity_geometry_def Let_def ones assign_scalar_grid
          slice_bounds_all b1 b2 cong: if_cong)
  also have "grid ?n (\<lambda>i j.
      if in_slice (nat ?e, ?n) i \<and> in_slice (0, ?n) j then cav_buffer_permittivity self
      else if in_slice (0, ?n) i \<and> in_slice (nat ?e, ?n) j then cav_buffer_permittivity self
      else if in_slice (0, nat ?s) i \<and> in_slice (0, ?n) j then cav_buffer_permittivity self
      else if in_slice (0, ?n) i \<and> in_slice (0, nat ?s) j then cav_buffer_permittivity self
      else 1)
    = grid ?n (\<lambda>i j. if nat ?s \<le> i \<and> i < nat ?e \<and> nat ?s \<le> j \<and> j < nat ?e
                then 1 else cav_buffer_permittivity self)"
    unfolding grid_def
    by (intro map_cong refl) (auto simp: in_slice_def)
  finally show ?thesis by (simp add: add.assoc)
qed


text \<open>Row-major flattening of a rectangular array.\<close>

lemma length_concat_rect:
  "list_all (\<lambda>row. length row = w) a \<Longrightarrow> length (concat a) = length a * w"
  by (induction a) simp_all

lemma nth_concat_rect:
  "list_all (\<lambda>row. length row = w) a \<Longrightarrow> r < length a \<Longrightarrow> c < w \<Longrightarrow>
     concat a ! (r * w + c) = a ! r ! c"
proof (induction a arbitrary: r)
  case Nil
  then show ?case by simp
next
  case (Cons x xs)
  show ?case
  proof (cases r)
    case 0
    with Cons.prems show ?thesis by (simp add: nth_append)
  next
    case (Suc k)
    with Cons.prems have "concat xs ! (k * w + c) = xs ! k ! c"
      by (intro Cons.IH) simp_all
    moreover have "Suc k * w + c - w = k * w + c" by simp
    ultimately show ?thesis
      using Cons.prems Suc by (simp add: nth_append)
  qed
qed

text \<open>What the assembly returns as its second component, and how its first is made.\<close>

lemma assemble_other:
  "assemble_operators lib C perms npml pol omega dl L0 = Inr (cc, other) \<Longrightarrow>
     other = sp_scale (omega ^ 2 * MU0 C * L0)
               (spdiags0 (map (\<lambda>e. EPSILON0 C * L0 * e) (concat perms)) (nrows perms * ncols perms))"
  by (auto simp: assemble_operators_def Let_def split: sum.splits prod.splits)

lemma assemble_curl:
  "assemble_operators lib C perms npml pol omega dl L0 = Inr (cc, other) \<Longrightarrow>
     \<exists>sim Dyb Dxb Dxf Dyf xx yy.
        Simulation lib omega perms dl [npml, npml] pol L0 = Inr sim
      \<and> unpack_derivs lib sim = (Dyb, Dxb, Dxf, Dyf)
      \<and> sp_matmul Dxf Dxb = Inr xx \<and> sp_matmul Dyf Dyb = Inr yy \<and> sp_add xx yy = Inr cc"
  by (auto simp: assemble_operators_def Let_def split: sum.splits prod.splits)

lemma scaled_diagonal_shape:
  "length (sp_scale k (spdiags0 v M)) = M"
  "list_all (\<lambda>row. length row = M) (sp_scale k (spdiags0 v M))"
  by (simp_all add: sp_scale_def spdiags0_def list_all_iff)

lemma scaled_diagonal_entry:
  "i < M \<Longrightarrow> j < M \<Longrightarrow>
     sp_scale k (spdiags0 v M) ! i ! j = (if i = j \<and> i < length v then k * v ! i else 0)"
  by (simp add: sp_scale_def spdiags0_def)

text \<open>Products and sums of square matrices of one side.\<close>

lemma square_table: "square M (map (\<lambda>i. map (\<lambda>j. f i j) [0..<M]) [0..<M])"
  by (simp add: square_def list_all_iff)

lemma nrows_square: "square M a \<Longrightarrow> nrows a = M"
  by (simp add: square_def nrows_def)

lemma ncols_square: "square M a \<Longrightarrow> ncols a = M"
  by (cases a) (auto simp: square_def ncols_def)

lemma sp_matmul_square:
  assumes a: "square M a" and b: "square M b" and p: "sp_matmul a b = Inr p"
  shows "square M p"
    and "\<forall>i j. i < M \<and> j < M \<longrightarrow> p ! i ! j = (\<Sum>k<M. a ! i ! k * b ! k ! j)"
proof -
  from p have p': "p = map (\<lambda>row. map (\<lambda>j. sum_list (map (\<lambda>k. row ! k * b ! k ! j) [0..<M]))
                      [0..<M]) a"
    by (simp add: sp_matmul_def nrows_square [OF b] ncols_square [OF b] split: if_splits)
  from a show "square M p"
    by (simp add: p' square_def list_all_iff)
  from a show "\<forall>i j. i < M \<and> j < M \<longrightarrow> p ! i ! j = (\<Sum>k<M. a ! i ! k * b ! k ! j)"
    by (simp add: p' square_def interv_sum_list_conv_sum_set_nat atLeast0LessThan)
qed

lemma sp_add_square:
  assumes a: "square M a" and b: "square M b" and s: "sp_add a b = Inr t"
  shows "square M t"
    and "\<forall>i j. i < M \<and> j < M \<longrightarrow> t ! i ! j = a ! i ! j + b ! i ! j"
proof -
  from s have t: "t = map (\<lambda>(ra, rb). map (\<lambda>(x, y). x + y) (zip ra rb)) (zip a b)"
    by (simp add: sp_add_def split: if_splits)
  from a b have la: "length a = M" and lb: "length b = M"
    and ra: "\<And>i. i < M \<Longrightarrow> length (a ! i) = M" and rb: "\<And>i. i < M \<Longrightarrow> length (b ! i) = M"
    by (simp_all add: square_def list_all_length)
  show "square M t"
    unfolding square_def list_all_length
    by (simp add: t la lb ra rb)
  show "\<forall>i j. i < M \<and> j < M \<longrightarrow> t ! i ! j = a ! i ! j + b ! i ! j"
    by (simp add: t la lb ra rb)
qed


lemma material_term:
  assumes rect: "list_all (\<lambda>row. length row = ncols perms) perms"
    and ret: "assemble_operators lib C perms npml pol omega dl L0 = Inr (cc, other)"
  shows "square (nrows perms * ncols perms) other"
    and "\<forall>i j. i < nrows perms * ncols perms \<and> j < nrows perms * ncols perms \<and> i \<noteq> j
            \<longrightarrow> other ! i ! j = 0"
    and "\<forall>r c. r < nrows perms \<and> c < ncols perms \<longrightarrow>
            r * ncols perms + c < nrows perms * ncols perms
          \<and> other ! (r * ncols perms + c) ! (r * ncols perms + c)
              = omega ^ 2 * MU0 C * L0 * (EPSILON0 C * L0 * perms ! r ! c)"
    and "\<forall>i. i < nrows perms * ncols perms \<longrightarrow>
            i div ncols perms < nrows perms \<and> i mod ncols perms < ncols perms
          \<and> other ! i ! i
              = omega ^ 2 * MU0 C * L0
                  * (EPSILON0 C * L0 * perms ! (i div ncols perms) ! (i mod ncols perms))"
proof -
  let ?M = "nrows perms * ncols perms"
  let ?v = "map (\<lambda>e. EPSILON0 C * L0 * e) (concat perms)"
  note o = assemble_other [OF ret]
  have len: "length ?v = ?M"
    using rect by (simp add: length_concat_rect nrows_def)
  show "square ?M other"
    unfolding o square_def by (simp add: scaled_diagonal_shape)
  show "\<forall>i j. i < ?M \<and> j < ?M \<and> i \<noteq> j \<longrightarrow> other ! i ! j = 0"
    unfolding o by (simp add: scaled_diagonal_entry)
  have cell: "r * ncols perms + c < ?M
          \<and> other ! (r * ncols perms + c) ! (r * ncols perms + c)
              = omega ^ 2 * MU0 C * L0 * (EPSILON0 C * L0 * perms ! r ! c)"
    if rc: "r < nrows perms \<and> c < ncols perms" for r c
  proof -
    from rc have "r * ncols perms + c < Suc r * ncols perms" by simp
    also have "\<dots> \<le> ?M" using rc by (intro mult_le_mono1) simp
    finally have lt: "r * ncols perms + c < ?M" .
    have "concat perms ! (r * ncols perms + c) = perms ! r ! c"
      using rect rc by (intro nth_concat_rect) (simp_all add: nrows_def)
    then show ?thesis
      unfolding o using lt len rect
      by (simp add: scaled_diagonal_entry length_concat_rect nrows_def)
  qed
  then show "\<forall>r c. r < nrows perms \<and> c < ncols perms \<longrightarrow>
            r * ncols perms + c < ?M
          \<and> other ! (r * ncols perms + c) ! (r * ncols perms + c)
              = omega ^ 2 * MU0 C * L0 * (EPSILON0 C * L0 * perms ! r ! c)"
    by blast
  show "\<forall>i. i < ?M \<longrightarrow>
            i div ncols perms < nrows perms \<and> i mod ncols perms < ncols perms
          \<and> other ! i ! i
              = omega ^ 2 * MU0 C * L0
                  * (EPSILON0 C * L0 * perms ! (i div ncols perms) ! (i mod ncols perms))"
  proof (intro allI impI)
    fix i assume i: "i < ?M"
    then have pos: "0 < ncols perms" by (cases "ncols perms") simp_all
    from i have r: "i div ncols perms < nrows perms"
      by (simp add: less_mult_imp_div_less)
    from pos have c: "i mod ncols perms < ncols perms" by simp
    from cell [of "i div ncols perms" "i mod ncols perms"] r c
    show "i div ncols perms < nrows perms \<and> i mod ncols perms < ncols perms
          \<and> other ! i ! i
              = omega ^ 2 * MU0 C * L0
                  * (EPSILON0 C * L0 * perms ! (i div ncols perms) ! (i mod ncols perms))"
      by simp
  qed
qed


lemma returns_caseD:
  "(case t of Inl e \<Rightarrow> False | Inr r \<Rightarrow> True) \<Longrightarrow> \<exists>a b. t = Inr (a, b)"
  by (cases t) auto



text \<open>
  C10. For a \<open>Cavity2D\<close> object whose three sizes are not negative, and any frequency:
  the array that \<open>get_operators\<close> builds has the padded shape, holds 1.0 on the device
  window and \<open>buffer_permittivity\<close> on every other cell, and is made from the object
  alone (the method takes no permittivity). The call is the assembly on that array.
  When it returns, the simulation was constructed from that array and the curl-curl
  matrix comes from its derivative matrices; and the material term is completely
  determined by the array: it is square of side \<open>side\<^sup>2\<close>, zero off the diagonal, and its
  diagonal entry for the cell in row \<open>r\<close>, column \<open>c\<close> of the padded grid is
  \<open>omega\<^sup>2 * MU0 * L0 * EPSILON0 * L0\<close> when the cell is in the device window and
  \<open>omega\<^sup>2 * MU0 * L0 * EPSILON0 * L0 * buffer_permittivity\<close> when it is not.
\<close>

theorem cavity_operators_fixed_grid:
  assumes sizes: "0 \<le> cav_npml self" "0 \<le> cav_cavity_buffer self" "0 \<le> cav_device_length self"
    and side: "side = cav_device_length self + 2 * cav_cavity_buffer self + 2 * cav_npml self"
    and start: "start = cav_npml self + cav_cavity_buffer self"
    and stop: "stop = start + cav_device_length self"
  shows "\<exists>perms.
      cavity_perms self = Inr perms
    \<and> length perms = nat side
    \<and> list_all (\<lambda>row. length row = nat side) perms
    \<and> (\<forall>r c. 0 \<le> r \<and> r < side \<and> 0 \<le> c \<and> c < side \<longrightarrow>
          perms ! nat r ! nat c =
            (if start \<le> r \<and> r < stop \<and> start \<le> c \<and> c < stop then 1
             else cav_buffer_permittivity self))
    \<and> Cavity2D_get_operators lib C self omega =
        assemble_operators lib C perms (cav_npml self) (cav_mode self) omega
          (cav_dl self) (cav_L0 self)
    \<and> (\<forall>curl_curl other.
          Cavity2D_get_operators lib C self omega = Inr (curl_curl, other) \<longrightarrow>
            (\<exists>sim Dyb Dxb Dxf Dyf xx yy.
                Simulation lib omega perms (cav_dl self) [cav_npml self, cav_npml self]
                  (cav_mode self) (cav_L0 self) = Inr sim
              \<and> unpack_derivs lib sim = (Dyb, Dxb, Dxf, Dyf)
              \<and> sp_matmul Dxf Dxb = Inr xx \<and> sp_matmul Dyf Dyb = Inr yy
              \<and> sp_add xx yy = Inr curl_curl)
          \<and> square (nat side * nat side) other
          \<and> (\<forall>i j. i < nat side * nat side \<and> j < nat side * nat side \<and> i \<noteq> j \<longrightarrow>
                other ! i ! j = 0)
          \<and> (\<forall>r c. 0 \<le> r \<and> r < side \<and> 0 \<le> c \<and> c < side \<longrightarrow>
                nat r * nat side + nat c < nat side * nat side
              \<and> other ! (nat r * nat side + nat c) ! (nat r * nat side + nat c)
                  = (if start \<le> r \<and> r < stop \<and> start \<le> c \<and> c < stop
                     then omega ^ 2 * MU0 C * cav_L0 self * EPSILON0 C * cav_L0 self
                     else omega ^ 2 * MU0 C * cav_L0 self * EPSILON0 C * cav_L0 self
                            * cav_buffer_permittivity self)))"
proof -
  let ?f = "\<lambda>i j. if nat (cav_npml self + cav_cavity_buffer self) \<le> i
                  \<and> i < nat (cav_npml self + cav_cavity_buffer self + cav_device_length self)
                  \<and> nat (cav_npml self + cav_cavity_buffer self) \<le> j
                  \<and> j < nat (cav_npml self + cav_cavity_buffer self + cav_device_length self)
                then 1 else cav_buffer_permittivity self"
  let ?perms = "grid (nat side) ?f"
  have p: "cavity_perms self = Inr ?perms"
    using cavity_perms_closed_form [OF sizes] by (simp add: side)
  have len: "length ?perms = nat side" by simp
  have rows: "list_all (\<lambda>row. length row = nat side) ?perms"
    by (simp add: grid_def list_all_iff)
  have cells: "\<forall>r c. 0 \<le> r \<and> r < side \<and> 0 \<le> c \<and> c < side \<longrightarrow>
          ?perms ! nat r ! nat c =
            (if start \<le> r \<and> r < stop \<and> start \<le> c \<and> c < stop then 1
             else cav_buffer_permittivity self)"
    using sizes by (auto simp: start stop)
  have call: "Cavity2D_get_operators lib C self omega =
        assemble_operators lib C ?perms (cav_npml self) (cav_mode self) omega
          (cav_dl self) (cav_L0 self)"
    by (simp add: Cavity2D_get_operators_def p)
  have ret: "\<forall>curl_curl other.
          Cavity2D_get_operators lib C self omega = Inr (curl_curl, other) \<longrightarrow>
            (\<exists>sim Dyb Dxb Dxf Dyf xx yy.
                Simulation lib omega ?perms (cav_dl self) [cav_npml self, cav_npml self]
                  (cav_mode self) (cav_L0 self) = Inr sim
              \<and> unpack_derivs lib sim = (Dyb, Dxb, Dxf, Dyf)
              \<and> sp_matmul Dxf Dxb = Inr xx \<and> sp_matmul Dyf Dyb = Inr yy
              \<and> sp_add xx yy = Inr curl_curl)
          \<and> square (nat side * nat side) other
          \<and> (\<forall>i j. i < nat side * nat side \<and> j < nat side * nat side \<and> i \<noteq> j \<longrightarrow>
                other ! i ! j = 0)
          \<and> (\<forall>r c. 0 \<le> r \<and> r < side \<and> 0 \<le> c \<and> c < side \<longrightarrow>
                nat r * nat side + nat c < nat side * nat side
              \<and> other ! (nat r * nat side + nat c) ! (nat r * nat side + nat c)
                  = (if start \<le> r \<and> r < stop \<and> start \<le> c \<and> c < stop
                     then omega ^ 2 * MU0 C * cav_L0 self * EPSILON0 C * cav_L0 self
                     else omega ^ 2 * MU0 C * cav_L0 self * EPSILON0 C * cav_L0 self
                            * cav_buffer_permittivity self))"
  proof (intro allI impI conjI)
    fix curl_curl other
    assume "Cavity2D_get_operators lib C self omega = Inr (curl_curl, other)"
    then have a: "assemble_operators lib C ?perms (cav_npml self) (cav_mode self) omega
          (cav_dl self) (cav_L0 self) = Inr (curl_curl, other)"
      by (simp add: call)
    from assemble_curl [OF a]
    show "\<exists>sim Dyb Dxb Dxf Dyf xx yy.
                Simulation lib omega ?perms (cav_dl self) [cav_npml self, cav_npml self]
                  (cav_mode self) (cav_L0 self) = Inr sim
              \<and> unpack_derivs lib sim = (Dyb, Dxb, Dxf, Dyf)
              \<and> sp_matmul Dxf Dxb = Inr xx \<and> sp_matmul Dyf Dyb = Inr yy
              \<and> sp_add xx yy = Inr curl_curl" .
    have rect: "list_all (\<lambda>row. length row = ncols ?perms) ?perms"
      using rows by simp
    note m = material_term [OF rect a]
    from m(1) show "square (nat side * nat side) other" by simp
    {
      fix i j
      assume "i < nat side * nat side \<and> j < nat side * nat side \<and> i \<noteq> j"
      with m(2) show "other ! i ! j = 0" by simp
    }
    fix r c
    assume w: "0 \<le> r \<and> r < side \<and> 0 \<le> c \<and> c < side"
    then have inside: "nat r < nrows ?perms \<and> nat c < ncols ?perms"
      by auto
    note e = m(3) [rule_format, OF inside]
    from e show "nat r * nat side + nat c < nat side * nat side" by simp
    from e cells [rule_format, OF w]
    show "other ! (nat r * nat side + nat c) ! (nat r * nat side + nat c)
                  = (if start \<le> r \<and> r < stop \<and> start \<le> c \<and> c < stop
                     then omega ^ 2 * MU0 C * cav_L0 self * EPSILON0 C * cav_L0 self
                     else omega ^ 2 * MU0 C * cav_L0 self * EPSILON0 C * cav_L0 self
                            * cav_buffer_permittivity self)"
      by simp
  qed
  from p len rows cells call ret show ?thesis by blast
qed

theorem cavity_operators_fixed_grid_witness:
  "\<exists>perms cc other.
     cavity_perms (Cavity2D_init ''Ez'' 1 0 1 (-5) 1 1) = Inr perms
   \<and> perms ! 1 ! 1 = 1 \<and> perms ! 0 ! 2 = - 5
   \<and> Cavity2D_get_operators
       \<lparr> Simulation = (\<lambda>omega eps_r dl NPML pol L0. Inr (nrows eps_r * ncols eps_r)),
         set_src = (\<lambda>sim i j v. Inr sim),
         solve_fields = (\<lambda>sim. Inr ([], [], [])),
         unpack_derivs = (\<lambda>M. let I = map (\<lambda>i. map (\<lambda>j. if i = j then 1 else 0) [0..<M]) [0..<M]
                               in (I, I, I, I)) \<rparr>
       \<lparr> EPSILON0 = 3, MU0 = 7, eps_si = 12 \<rparr> (Cavity2D_init ''Ez'' 1 0 1 (-5) 1 1) 2
       = Inr (cc, other)
   \<and> square 9 cc \<and> square 9 other
   \<and> other ! 4 ! 4 = 84 \<and> other ! 2 ! 2 = - 420 \<and> other ! 0 ! 0 = - 420 \<and> other ! 4 ! 5 = 0"
proof -
  let ?lib = "\<lparr> Simulation = (\<lambda>omega eps_r dl NPML pol L0. Inr (nrows eps_r * ncols eps_r)),
         set_src = (\<lambda>sim i j v. Inr sim),
         solve_fields = (\<lambda>sim. Inr ([], [], [])),
         unpack_derivs = (\<lambda>M. let I = map (\<lambda>i. map (\<lambda>j. if i = j then 1 else 0) [0..<M]) [0..<M]
                               in (I, I, I, I)) \<rparr> :: nat angler"
  let ?C = "\<lparr> EPSILON0 = 3, MU0 = 7, eps_si = 12 \<rparr>"
  let ?self = "Cavity2D_init ''Ez'' 1 0 1 (-5) 1 1"
  let ?I = "\<lambda>M. map (\<lambda>i. map (\<lambda>j. if i = j then 1 else 0 :: complex) [0..<M]) [0..<M]"
  have "case Cavity2D_get_operators ?lib ?C ?self 2 of Inl e \<Rightarrow> False | Inr r \<Rightarrow> True"
    by code_simp
  then obtain cc other where c: "Cavity2D_get_operators ?lib ?C ?self 2 = Inr (cc, other)"
    using returns_caseD by blast
  have sizes: "0 \<le> cav_npml ?self" "0 \<le> cav_cavity_buffer ?self" "0 \<le> cav_device_length ?self"
    and side: "3 = cav_device_length ?self + 2 * cav_cavity_buffer ?self + 2 * cav_npml ?self"
    and start: "1 = cav_npml ?self + cav_cavity_buffer ?self"
    and stop: "2 = 1 + cav_device_length ?self"
    by (simp_all add: Cavity2D_init_def)
  from cavity_operators_fixed_grid [OF sizes side start stop, of ?lib ?C 2]
  obtain perms where p: "cavity_perms ?self = Inr perms"
    and len: "length perms = nat 3" "list_all (\<lambda>row. length row = nat 3) perms"
    and cells: "\<forall>r c. 0 \<le> r \<and> r < 3 \<and> 0 \<le> c \<and> c < 3 \<longrightarrow>
          perms ! nat r ! nat c =
            (if 1 \<le> r \<and> r < 2 \<and> 1 \<le> c \<and> c < 2 then 1
             else cav_buffer_permittivity ?self)"
    and ret: "\<forall>curl_curl other.
          Cavity2D_get_operators ?lib ?C ?self 2 = Inr (curl_curl, other) \<longrightarrow>
            (\<exists>sim Dyb Dxb Dxf Dyf xx yy.
                Simulation ?lib 2 perms (cav_dl ?self) [cav_npml ?self, cav_npml ?self]
                  (cav_mode ?self) (cav_L0 ?self) = Inr sim
              \<and> unpack_derivs ?lib sim = (Dyb, Dxb, Dxf, Dyf)
              \<and> sp_matmul Dxf Dxb = Inr xx \<and> sp_matmul Dyf Dyb = Inr yy
              \<and> sp_add xx yy = Inr curl_curl)
          \<and> square (nat 3 * nat 3) other
          \<and> (\<forall>i j. i < nat 3 * nat 3 \<and> j < nat 3 * nat 3 \<and> i \<noteq> j \<longrightarrow>
                other ! i ! j = 0)
          \<and> (\<forall>r c. (0::int) \<le> r \<and> r < 3 \<and> 0 \<le> c \<and> c < 3 \<longrightarrow>
                nat r * nat 3 + nat c < nat 3 * nat 3
              \<and> other ! (nat r * nat 3 + nat c) ! (nat r * nat 3 + nat c)
                  = (if 1 \<le> r \<and> r < 2 \<and> 1 \<le> c \<and> c < 2
                     then 2 ^ 2 * MU0 ?C * cav_L0 ?self * EPSILON0 ?C * cav_L0 ?self
                     else 2 ^ 2 * MU0 ?C * cav_L0 ?self * EPSILON0 ?C * cav_L0 ?self
                            * cav_buffer_permittivity ?self))"
    by blast
  from cells [rule_format, of 1 1] have p11: "perms ! 1 ! 1 = 1" by simp
  from cells [rule_format, of 0 2] have p02: "perms ! 0 ! 2 = - 5"
    by (simp add: Cavity2D_init_def)
  from ret [rule_format, OF c] obtain sim Dyb Dxb Dxf Dyf xx yy where
    s: "Simulation ?lib 2 perms (cav_dl ?self) [cav_npml ?self, cav_npml ?self]
                  (cav_mode ?self) (cav_L0 ?self) = Inr sim"
    and u: "unpack_derivs ?lib sim = (Dyb, Dxb, Dxf, Dyf)"
    and x: "sp_matmul Dxf Dxb = Inr xx" and y: "sp_matmul Dyf Dyb = Inr yy"
    and a: "sp_add xx yy = Inr cc"
    by blast
  from len have "nrows perms = 3" "ncols perms = 3"
    by (simp_all add: nrows_def ncols_square [unfolded square_def])
  with s have sim: "sim = 9" by auto
  from u have d: "Dyb = ?I 9" "Dxb = ?I 9" "Dxf = ?I 9" "Dyf = ?I 9"
    by (auto simp: sim Let_def)
  have i9: "square 9 (?I 9)" by (rule square_table)
  have sqc: "square 9 cc"
    by (rule sp_add_square(1) [OF sp_matmul_square(1) [OF _ _ x] sp_matmul_square(1) [OF _ _ y] a])
       (simp_all only: d i9)
  from ret [rule_format, OF c] have sq: "square (nat 3 * nat 3) other"
    and off: "\<forall>i j. i < nat 3 * nat 3 \<and> j < nat 3 * nat 3 \<and> i \<noteq> j \<longrightarrow> other ! i ! j = 0"
    and diag: "\<forall>r c. (0::int) \<le> r \<and> r < 3 \<and> 0 \<le> c \<and> c < 3 \<longrightarrow>
                nat r * nat 3 + nat c < nat 3 * nat 3
              \<and> other ! (nat r * nat 3 + nat c) ! (nat r * nat 3 + nat c)
                  = (if 1 \<le> r \<and> r < 2 \<and> 1 \<le> c \<and> c < 2
                     then 2 ^ 2 * MU0 ?C * cav_L0 ?self * EPSILON0 ?C * cav_L0 ?self
                     else 2 ^ 2 * MU0 ?C * cav_L0 ?self * EPSILON0 ?C * cav_L0 ?self
                            * cav_buffer_permittivity ?self)"
    by blast+
  from sq have sq9: "square 9 other" by simp
  from diag [rule_format, of 1 1] have o44: "other ! 4 ! 4 = 84"
    by (simp add: Cavity2D_init_def)
  from diag [rule_format, of 0 2] have o22: "other ! 2 ! 2 = - 420"
    by (simp add: Cavity2D_init_def numeral_2_eq_2)
  from diag [rule_format, of 0 0] have o00: "other ! 0 ! 0 = - 420"
    by (simp add: Cavity2D_init_def)
  from off [rule_format, of 4 5] have o45: "other ! 4 ! 5 = 0"
    by simp
  show ?thesis
    by (intro exI conjI) (rule p p11 p02 c sqc sq9 o44 o22 o00 o45)+
qed

section \<open>Creating a batch twice\<close>

lemma has_datasetD:
  assumes "has_dataset f grp name shape dt"
  shows "\<exists>ms dt' xs. map_of f grp = Some (Group ms)
           \<and> map_of ms name = Some (Dataset shape dt' xs) \<and> np_can_cast dt dt'"
proof (cases "map_of f grp")
  case None
  with assms show ?thesis by (simp add: has_dataset_def)
next
  case outer: (Some obj)
  show ?thesis
  proof (cases obj)
    case (Dataset a b c)
    with assms outer show ?thesis by (simp add: has_dataset_def)
  next
    case g: (Group ms)
    show ?thesis
    proof (cases "map_of ms name")
      case None
      with assms outer g show ?thesis by (simp add: has_dataset_def)
    next
      case inner: (Some member)
      show ?thesis
      proof (cases member)
        case (Dataset shape' dt' xs)
        with assms outer g inner show ?thesis by (simp add: has_dataset_def)
      next
        case (Group sub)
        with assms outer g inner show ?thesis by (simp add: has_dataset_def)
      qed
    qed
  qed
qed

lemma require_dataset_present:
  assumes "has_dataset f grp name shape dt"
  shows "require_dataset f grp name shape dt = (f, Inr (grp, name))"
proof -
  from has_datasetD [OF assms] obtain ms dt' xs where
    "map_of f grp = Some (Group ms)" "map_of ms name = Some (Dataset shape dt' xs)"
    "np_can_cast dt dt'"
    by blast
  then show ?thesis by (simp add: require_dataset_def)
qed

lemma require_dataset_success:
  assumes "require_dataset f grp name shape dt = (f', Inr h)"
  shows "has_dataset f' grp name shape dt" and "h = (grp, name)"
  using assms
  by (auto simp: has_dataset_def require_dataset_def update_conv' np_can_cast_def
        split: option.splits h5obj.splits if_splits)

lemma require_dataset_keeps:
  assumes "has_dataset f grp name shape dt"
    and "require_dataset f grp name2 shape2 dt2 = (f', r)"
  shows "has_dataset f' grp name shape dt"
proof -
  from has_datasetD [OF assms(1)] obtain ms dt' xs where
    g: "map_of f grp = Some (Group ms)" and d: "map_of ms name = Some (Dataset shape dt' xs)"
    and c: "np_can_cast dt dt'"
    by blast
  show ?thesis
  proof (cases "f' = f")
    case True
    with assms(1) show ?thesis by simp
  next
    case False
    with assms(2) g have n: "map_of ms name2 = None"
      and f': "f' = AList.update grp (Group (AList.update name2
                 (Dataset shape2 dt2 (replicate (nat (prod_list shape2)) 0)) ms)) f"
      by (auto simp: require_dataset_def split: option.splits h5obj.splits if_splits)
    from n d have "name \<noteq> name2" by auto
    with d c show ?thesis
      by (simp add: has_dataset_def f' update_conv')
  qed
qed

lemma require_group_present:
  assumes "has_dataset f grp name shape dt"
  shows "require_group f grp = (f, Inr grp)"
proof -
  from has_datasetD [OF assms] obtain ms where "map_of f grp = Some (Group ms)"
    by blast
  then show ?thesis by (simp add: require_group_def)
qed

lemma then_require_success:
  assumes "then_require st grp name shape dt = (f', Inr hs')"
  shows "\<exists>f hs. st = (f, Inr hs) \<and> require_dataset f grp name shape dt = (f', Inr (grp, name))
           \<and> hs' = hs @ [(name, (grp, name))]"
proof -
  obtain f r where st: "st = (f, r)" by (cases st)
  from assms obtain hs h where r: "r = Inr hs"
    and q: "require_dataset f grp name shape dt = (f', Inr h)"
    and hs': "hs' = hs @ [(name, h)]"
    by (auto simp: then_require_def st split: sum.splits prod.splits)
  from require_dataset_success(2) [OF q] have "h = (grp, name)" .
  with st r q hs' show ?thesis by simp
qed

lemma then_require_present:
  "has_dataset f grp name shape dt \<Longrightarrow>
     then_require (f, Inr hs) grp name shape dt = (f, Inr (hs @ [(name, (grp, name))]))"
  by (simp add: then_require_def require_dataset_present)

lemma has_memberD:
  assumes "has_member f grp name obj"
  shows "\<exists>ms. map_of f grp = Some (Group ms) \<and> map_of ms name = Some obj"
proof (cases "map_of f grp")
  case None
  with assms show ?thesis by (simp add: has_member_def)
next
  case outer: (Some member)
  show ?thesis
  proof (cases member)
    case (Dataset a b c)
    with assms outer show ?thesis by (simp add: has_member_def)
  next
    case (Group ms)
    with assms outer show ?thesis by (simp add: has_member_def)
  qed
qed

text \<open>Neither \<open>require\<close> call removes or changes a member that is already there.\<close>

lemma require_dataset_member_kept:
  assumes "has_member f grp name obj"
  shows "has_member (fst (require_dataset f grp name2 shape dt)) grp name obj"
proof -
  from has_memberD [OF assms] obtain ms where
    g: "map_of f grp = Some (Group ms)" and m: "map_of ms name = Some obj"
    by blast
  show ?thesis
  proof (cases "fst (require_dataset f grp name2 shape dt) = f")
    case True
    with assms show ?thesis by simp
  next
    case False
    with g have n: "map_of ms name2 = None"
      and f': "fst (require_dataset f grp name2 shape dt) = AList.update grp (Group (AList.update name2
                 (Dataset shape dt (replicate (nat (prod_list shape)) 0)) ms)) f"
      by (auto simp: require_dataset_def split: option.splits h5obj.splits if_splits)
    from n m have "name \<noteq> name2" by auto
    with m show ?thesis
      by (simp add: has_member_def f' update_conv')
  qed
qed

lemma require_group_member_kept:
  assumes "has_member f grp name obj"
  shows "require_group f grp = (f, Inr grp)"
proof -
  from has_memberD [OF assms] obtain ms where "map_of f grp = Some (Group ms)" by blast
  then show ?thesis by (simp add: require_group_def)
qed

lemma then_require_member_kept:
  assumes "has_member (fst st) grp name obj"
  shows "has_member (fst (then_require st grp name2 shape dt)) grp name obj"
proof (cases "snd st")
  case (Inl e)
  with assms show ?thesis by (simp add: then_require_def)
next
  case (Inr hs)
  have "fst (then_require st grp name2 shape dt) = fst (require_dataset (fst st) grp name2 shape dt)"
    by (simp add: then_require_def Inr split: prod.splits sum.splits)
  with require_dataset_member_kept [OF assms] show ?thesis by simp
qed

lemma create_dataset_member_kept:
  assumes "has_member f name col obj"
  shows "has_member (fst (create_dataset f N name s)) name col obj"
  by (simp add: create_dataset_def require_group_member_kept [OF assms]
        then_require_member_kept assms)

lemma create_dataset_success:
  assumes first: "create_dataset f N name s = (f', Inr ds)"
  shows "list_all (\<lambda>(col, dt). has_dataset f' name col [N, s, s] dt) batch_columns"
    and "ds = batch_handles name"
proof -
  let ?sh = "[N, s, s]"
  from first obtain f0 grp where g: "require_group f name = (f0, Inr grp)"
    and chain: "then_require (then_require (then_require (then_require (then_require
            (then_require (then_require (then_require (f0, Inr [])
              grp ''epsilons'' ?sh Float64)
              grp ''proximities'' ?sh Float64)
              grp ''Hx'' ?sh Complex128)
              grp ''Hy'' ?sh Complex128)
              grp ''Ez'' ?sh Complex128)
              grp ''Hx_vac'' ?sh Complex128)
              grp ''Hy_vac'' ?sh Complex128)
              grp ''Ez_vac'' ?sh Complex128 = (f', Inr ds)"
    by (auto simp: create_dataset_def split: prod.splits sum.splits)
  have grp: "grp = name"
    using g by (auto simp: require_group_def split: option.splits h5obj.splits)
  from then_require_success [OF chain] obtain f7 h7 where
    s7: "then_require (then_require (then_require (then_require
            (then_require (then_require (then_require (f0, Inr [])
              grp ''epsilons'' ?sh Float64)
              grp ''proximities'' ?sh Float64)
              grp ''Hx'' ?sh Complex128)
              grp ''Hy'' ?sh Complex128)
              grp ''Ez'' ?sh Complex128)
              grp ''Hx_vac'' ?sh Complex128)
              grp ''Hy_vac'' ?sh Complex128 = (f7, Inr h7)"
    and r8: "require_dataset f7 grp ''Ez_vac'' ?sh Complex128 = (f', Inr (grp, ''Ez_vac''))"
    and d8: "ds = h7 @ [(''Ez_vac'', (grp, ''Ez_vac''))]"
    by blast
  from then_require_success [OF s7] obtain f6 h6 where
    s6: "then_require (then_require (then_require
            (then_require (then_require (then_require (f0, Inr [])
              grp ''epsilons'' ?sh Float64)
              grp ''proximities'' ?sh Float64)
              grp ''Hx'' ?sh Complex128)
              grp ''Hy'' ?sh Complex128)
              grp ''Ez'' ?sh Complex128)
              grp ''Hx_vac'' ?sh Complex128 = (f6, Inr h6)"
    and r7: "require_dataset f6 grp ''Hy_vac'' ?sh Complex128 = (f7, Inr (grp, ''Hy_vac''))"
    and d7: "h7 = h6 @ [(''Hy_vac'', (grp, ''Hy_vac''))]"
    by blast
  from then_require_success [OF s6] obtain f5 h5 where
    s5: "then_require (then_require
            (then_require (then_require (then_require (f0, Inr [])
              grp ''epsilons'' ?sh Float64)
              grp ''proximities'' ?sh Float64)
              grp ''Hx'' ?sh Complex128)
              grp ''Hy'' ?sh Complex128)
              grp ''Ez'' ?sh Complex128 = (f5, Inr h5)"
    and r6: "require_dataset f5 grp ''Hx_vac'' ?sh Complex128 = (f6, Inr (grp, ''Hx_vac''))"
    and d6: "h6 = h5 @ [(''Hx_vac'', (grp, ''Hx_vac''))]"
    by blast
  from then_require_success [OF s5] obtain f4 h4 where
    s4: "then_require
            (then_require (then_require (then_require (f0, Inr [])
              grp ''epsilons'' ?sh Float64)
              grp ''proximities'' ?sh Float64)
              grp ''Hx'' ?sh Complex128)
              grp ''Hy'' ?sh Complex128 = (f4, Inr h4)"
    and r5: "require_dataset f4 grp ''Ez'' ?sh Complex128 = (f5, Inr (grp, ''Ez''))"
    and d5: "h5 = h4 @ [(''Ez'', (grp, ''Ez''))]"
    by blast
  from then_require_success [OF s4] obtain f3 h3 where
    s3: "then_require (then_require (then_require (f0, Inr [])
              grp ''epsilons'' ?sh Float64)
              grp ''proximities'' ?sh Float64)
              grp ''Hx'' ?sh Complex128 = (f3, Inr h3)"
    and r4: "require_dataset f3 grp ''Hy'' ?sh Complex128 = (f4, Inr (grp, ''Hy''))"
    and d4: "h4 = h3 @ [(''Hy'', (grp, ''Hy''))]"
    by blast
  from then_require_success [OF s3] obtain f2 h2 where
    s2: "then_require (then_require (f0, Inr [])
              grp ''epsilons'' ?sh Float64)
              grp ''proximities'' ?sh Float64 = (f2, Inr h2)"
    and r3: "require_dataset f2 grp ''Hx'' ?sh Complex128 = (f3, Inr (grp, ''Hx''))"
    and d3: "h3 = h2 @ [(''Hx'', (grp, ''Hx''))]"
    by blast
  from then_require_success [OF s2] obtain f1 h1 where
    s1: "then_require (f0, Inr []) grp ''epsilons'' ?sh Float64 = (f1, Inr h1)"
    and r2: "require_dataset f1 grp ''proximities'' ?sh Float64 = (f2, Inr (grp, ''proximities''))"
    and d2: "h2 = h1 @ [(''proximities'', (grp, ''proximities''))]"
    by blast
  from then_require_success [OF s1] have
    r1: "require_dataset f0 grp ''epsilons'' ?sh Float64 = (f1, Inr (grp, ''epsilons''))"
    and d1: "h1 = [(''epsilons'', (grp, ''epsilons''))]"
    by auto
  note k = require_dataset_keeps
  have c8: "has_dataset f' grp ''Ez_vac'' ?sh Complex128"
    by (rule require_dataset_success(1) [OF r8])
  have c7: "has_dataset f' grp ''Hy_vac'' ?sh Complex128"
    by (rule k [OF require_dataset_success(1) [OF r7] r8])
  have c6: "has_dataset f' grp ''Hx_vac'' ?sh Complex128"
    by (rule k [OF k [OF require_dataset_success(1) [OF r6] r7] r8])
  have c5: "has_dataset f' grp ''Ez'' ?sh Complex128"
    by (rule k [OF k [OF k [OF require_dataset_success(1) [OF r5] r6] r7] r8])
  have c4: "has_dataset f' grp ''Hy'' ?sh Complex128"
    by (rule k [OF k [OF k [OF k [OF require_dataset_success(1) [OF r4] r5] r6] r7] r8])
  have c3: "has_dataset f' grp ''Hx'' ?sh Complex128"
    by (rule k [OF k [OF k [OF k [OF k [OF require_dataset_success(1) [OF r3] r4] r5] r6] r7] r8])
  have c2: "has_dataset f' grp ''proximities'' ?sh Float64"
    by (rule k [OF k [OF k [OF k [OF k [OF k [OF require_dataset_success(1) [OF r2]
          r3] r4] r5] r6] r7] r8])
  have c1: "has_dataset f' grp ''epsilons'' ?sh Float64"
    by (rule k [OF k [OF k [OF k [OF k [OF k [OF k [OF require_dataset_success(1) [OF r1]
          r2] r3] r4] r5] r6] r7] r8])
  show "list_all (\<lambda>(col, dt). has_dataset f' name col [N, s, s] dt) batch_columns"
    using c1 c2 c3 c4 c5 c6 c7 c8 by (simp add: batch_columns_def grp)
  show "ds = batch_handles name"
    by (simp add: d1 d2 d3 d4 d5 d6 d7 d8 batch_handles_def batch_columns_def grp)
qed

lemma create_dataset_present:
  assumes "list_all (\<lambda>(col, dt). has_dataset f name col [N, s, s] dt) batch_columns"
  shows "create_dataset f N name s = (f, Inr (batch_handles name))"
proof -
  let ?sh = "[N, s, s]"
  from assms have c: "has_dataset f name ''epsilons'' ?sh Float64"
      "has_dataset f name ''proximities'' ?sh Float64"
      "has_dataset f name ''Hx'' ?sh Complex128" "has_dataset f name ''Hy'' ?sh Complex128"
      "has_dataset f name ''Ez'' ?sh Complex128" "has_dataset f name ''Hx_vac'' ?sh Complex128"
      "has_dataset f name ''Hy_vac'' ?sh Complex128" "has_dataset f name ''Ez_vac'' ?sh Complex128"
    by (simp_all add: batch_columns_def)
  have g: "require_group f name = (f, Inr name)"
    by (rule require_group_present [OF c(1)])
  show ?thesis
    by (simp add: create_dataset_def g batch_handles_def batch_columns_def
          then_require_present [OF c(1)] then_require_present [OF c(2)]
          then_require_present [OF c(3)] then_require_present [OF c(4)]
          then_require_present [OF c(5)] then_require_present [OF c(6)]
          then_require_present [OF c(7)] then_require_present [OF c(8)])
qed

text \<open>
  C9. A file that already holds the batch, that is, whose group of that name has the
  eight columns with the shape \<open>(N, s, s)\<close> and compatible element types, whatever has
  been written into them, comes back from \<open>create_dataset\<close> exactly as it was, together
  with the dictionary of the handles of those eight existing datasets: nothing is
  raised, no member is added, no stored element changes. A call that returns leaves
  such a file, so a second call with the same name, \<open>N\<close> and \<open>s\<close> returns the same
  dictionary and the same file. And no call, returning or raising, removes or changes a
  member that the batch's group already had. (\<open>h5py\<close>'s \<open>require_group\<close> and
  \<open>require_dataset\<close> are modelled as documented.)
\<close>

theorem create_dataset_idempotent:
  "(list_all (\<lambda>(col, dt). has_dataset f name col [N, s, s] dt) batch_columns \<longrightarrow>
      create_dataset f N name s = (f, Inr (batch_handles name)))
   \<and> (create_dataset f N name s = (f', Inr ds) \<longrightarrow>
        list_all (\<lambda>(col, dt). has_dataset f' name col [N, s, s] dt) batch_columns
      \<and> ds = batch_handles name
      \<and> create_dataset f' N name s = (f', Inr ds))
   \<and> (has_member f name col obj \<longrightarrow>
        has_member (fst (create_dataset f N name s)) name col obj)"
proof (intro conjI impI)
  assume "list_all (\<lambda>(col, dt). has_dataset f name col [N, s, s] dt) batch_columns"
  then show "create_dataset f N name s = (f, Inr (batch_handles name))"
    by (rule create_dataset_present)
next
  assume first: "create_dataset f N name s = (f', Inr ds)"
  show "list_all (\<lambda>(col, dt). has_dataset f' name col [N, s, s] dt) batch_columns"
    by (rule create_dataset_success(1) [OF first])
  show "ds = batch_handles name"
    by (rule create_dataset_success(2) [OF first])
  show "create_dataset f' N name s = (f', Inr ds)"
    using create_dataset_present [OF create_dataset_success(1) [OF first]]
      create_dataset_success(2) [OF first] by simp
next
  assume "has_member f name col obj"
  then show "has_member (fst (create_dataset f N name s)) name col obj"
    by (rule create_dataset_member_kept)
qed

theorem create_dataset_idempotent_witness:
  "\<exists>f' ds.
      create_dataset
        [(''old'', Group []),
         (''batch'', Group [(''epsilons'', Dataset [2, 1, 1] Float64 [7, 9])])] 2 ''batch'' 1
        = (f', Inr ds)
    \<and> has_member f' ''batch'' ''epsilons'' (Dataset [2, 1, 1] Float64 [7, 9])
    \<and> list_all (\<lambda>(col, dt). has_dataset f' ''batch'' col [2, 1, 1] dt) batch_columns
    \<and> ds = batch_handles ''batch''
    \<and> create_dataset f' 2 ''batch'' 1 = (f', Inr ds)"
proof -
  let ?f = "[(''old'', Group []),
         (''batch'', Group [(''epsilons'', Dataset [2, 1, 1] Float64 [7, 9])])]"
  let ?r = "create_dataset ?f 2 ''batch'' 1"
  have e: "case snd ?r of Inl e \<Rightarrow> False | Inr ds \<Rightarrow> True"
    by code_simp
  obtain f' r where fr: "?r = (f', r)" by (cases ?r)
  with e obtain ds where r: "r = Inr ds"
    by (cases r) simp_all
  from fr r have first: "?r = (f', Inr ds)" by simp
  note t = create_dataset_idempotent [of ?f "''batch''" 2 1 f' ds "''epsilons''"
      "Dataset [2, 1, 1] Float64 [7, 9]"]
  have m: "has_member ?f ''batch'' ''epsilons'' (Dataset [2, 1, 1] Float64 [7, 9])"
    by (simp add: has_member_def)
  from t m first have kept: "has_member f' ''batch'' ''epsilons'' (Dataset [2, 1, 1] Float64 [7, 9])"
    by simp
  from t first have held: "list_all (\<lambda>(col, dt). has_dataset f' ''batch'' col [2, 1, 1] dt) batch_columns"
    and handles: "ds = batch_handles ''batch''"
    and again: "create_dataset f' 2 ''batch'' 1 = (f', Inr ds)"
    by blast+
  show ?thesis
    by (intro exI conjI) (rule first kept held handles again)+
qed

end
